theory Spec2Isabelle
  imports Complex_Main "HOL-Library.Word"
begin

section \<open>The MQ135 gas sensor driver (MQ135.cpp)\<close>

text \<open>
  The driver turns two readings of the analog-to-digital converter into a sensor
  resistance, the resistance into a gas concentration by a power law, and searches for the
  calibration constant \<open>_rzero\<close> in steps of 0.1.

  Numbers. The C++ code computes in \<open>float\<close> and \<open>double\<close>. A value is a real
  number, an infinity or a NaN: a division by zero gives an infinity or a NaN, and every
  comparison with a NaN is false. The sign of zero is not kept (every zero divides like
  \<open>+0\<close>), and neither is the exponent range (no overflow, no subnormal numbers).

  Rounding is modelled where the code stores a \<open>float\<close> that it keeps or shows: the
  locals \<open>val\<close>, \<open>ref_val\<close> and \<open>Rs\<close> of \<open>getResistance\<close>, with every \<open>double\<close>
  operation that leads to them, and the addition \<open>_rzero += step\<close> of the calibration,
  a \<open>double\<close> addition stored into a \<open>float\<close>. The arithmetic of the correction
  factor, of the quotients by the factor and by \<open>_rzero\<close>, and of the power law is
  exact on finite values.
\<close>

subsection \<open>Floating-point values with their special values\<close>

datatype fval = Fin real | PInf | NInf | NaN

fun fneg :: "fval \<Rightarrow> fval" where
  "fneg (Fin a) = Fin (- a)"
| "fneg PInf = NInf"
| "fneg NInf = PInf"
| "fneg NaN = NaN"

fun fadd :: "fval \<Rightarrow> fval \<Rightarrow> fval" where
  "fadd NaN y = NaN"
| "fadd x NaN = NaN"
| "fadd (Fin a) (Fin b) = Fin (a + b)"
| "fadd PInf NInf = NaN"
| "fadd NInf PInf = NaN"
| "fadd PInf y = PInf"
| "fadd NInf y = NInf"
| "fadd (Fin a) y = y"

definition fsub :: "fval \<Rightarrow> fval \<Rightarrow> fval" where
  "fsub x y = fadd x (fneg y)"

text \<open>The infinity of the given sign: \<open>inf_sign True\<close> is the negative one.\<close>

definition inf_sign :: "bool \<Rightarrow> fval" where
  "inf_sign neg = (if neg then NInf else PInf)"

fun fmul :: "fval \<Rightarrow> fval \<Rightarrow> fval" where
  "fmul NaN y = NaN"
| "fmul x NaN = NaN"
| "fmul (Fin a) (Fin b) = Fin (a * b)"
| "fmul (Fin a) PInf = (if a = 0 then NaN else inf_sign (a < 0))"
| "fmul (Fin a) NInf = (if a = 0 then NaN else inf_sign (0 < a))"
| "fmul PInf (Fin b) = (if b = 0 then NaN else inf_sign (b < 0))"
| "fmul NInf (Fin b) = (if b = 0 then NaN else inf_sign (0 < b))"
| "fmul PInf PInf = PInf"
| "fmul PInf NInf = NInf"
| "fmul NInf PInf = NInf"
| "fmul NInf NInf = PInf"

fun fdiv :: "fval \<Rightarrow> fval \<Rightarrow> fval" where
  "fdiv NaN y = NaN"
| "fdiv x NaN = NaN"
| "fdiv (Fin a) (Fin b) =
     (if b = 0 then (if a = 0 then NaN else inf_sign (a < 0)) else Fin (a / b))"
| "fdiv (Fin a) PInf = Fin 0"
| "fdiv (Fin a) NInf = Fin 0"
| "fdiv PInf (Fin b) = inf_sign (b < 0)"
| "fdiv NInf (Fin b) = inf_sign (0 \<le> b)"
| "fdiv PInf y = NaN"
| "fdiv NInf y = NaN"

text \<open>The comparisons \<open><\<close>, \<open><=\<close>, \<open>>\<close> and \<open>>=\<close>: false as soon as one side is a NaN.\<close>

fun flt :: "fval \<Rightarrow> fval \<Rightarrow> bool" where
  "flt NaN y = False"
| "flt x NaN = False"
| "flt (Fin a) (Fin b) = (a < b)"
| "flt x PInf = (x \<noteq> PInf)"
| "flt NInf y = (y \<noteq> NInf)"
| "flt x y = False"

fun fle :: "fval \<Rightarrow> fval \<Rightarrow> bool" where
  "fle NaN y = False"
| "fle x NaN = False"
| "fle (Fin a) (Fin b) = (a \<le> b)"
| "fle x PInf = True"
| "fle NInf y = True"
| "fle x y = False"

definition fgt :: "fval \<Rightarrow> fval \<Rightarrow> bool" where
  "fgt x y = flt y x"

definition fge :: "fval \<Rightarrow> fval \<Rightarrow> bool" where
  "fge x y = fle y x"

text \<open>
  The library function \<open>pow\<close> of \<open>math.h\<close>, with the special cases the C standard
  lists for it. A real is an odd integer when it is an integer whose floor is odd.
\<close>

definition is_int :: "real \<Rightarrow> bool" where
  "is_int y = (y = of_int \<lfloor>y\<rfloor>)"

definition odd_int :: "real \<Rightarrow> bool" where
  "odd_int y = (is_int y \<and> odd \<lfloor>y\<rfloor>)"

fun fpow :: "fval \<Rightarrow> fval \<Rightarrow> fval" where
  "fpow (Fin x) (Fin y) =
     (if y = 0 \<or> x = 1 then Fin 1
      else if x = 0 then (if y < 0 then PInf else Fin 0)
      else if 0 < x then Fin (x powr y)
      else if is_int y then Fin (x powi \<lfloor>y\<rfloor>)
      else NaN)"
| "fpow (Fin x) PInf =
     (if \<bar>x\<bar> = 1 then Fin 1 else if \<bar>x\<bar> < 1 then Fin 0 else PInf)"
| "fpow (Fin x) NInf =
     (if \<bar>x\<bar> = 1 then Fin 1 else if \<bar>x\<bar> < 1 then PInf else Fin 0)"
| "fpow (Fin x) NaN = (if x = 1 then Fin 1 else NaN)"
| "fpow PInf (Fin y) = (if y = 0 then Fin 1 else if y < 0 then Fin 0 else PInf)"
| "fpow NInf (Fin y) =
     (if y = 0 then Fin 1 else if y < 0 then Fin 0
      else if odd_int y then NInf else PInf)"
| "fpow PInf PInf = PInf"
| "fpow NInf PInf = PInf"
| "fpow PInf NInf = Fin 0"
| "fpow NInf NInf = Fin 0"
| "fpow PInf NaN = NaN"
| "fpow NInf NaN = NaN"
| "fpow NaN (Fin y) = (if y = 0 then Fin 1 else NaN)"
| "fpow NaN y = NaN"

subsection \<open>Rounding to a binary format\<close>

text \<open>
  \<open>fround p x\<close> is the number with a significand of \<open>p\<close> bits nearest to \<open>x\<close>, the
  one with an even significand when two are equally near. A \<open>float\<close> has 24 bits and
  a \<open>double\<close> 53.
\<close>

definition round_even :: "real \<Rightarrow> int" where
  "round_even y =
     (let f = \<lfloor>y\<rfloor>; d = y - of_int f
      in if d < 1 / 2 then f else if 1 / 2 < d then f + 1 else if even f then f else f + 1)"

definition fround :: "nat \<Rightarrow> real \<Rightarrow> real" where
  "fround p x =
     (if x = 0 then 0
      else let e = \<lfloor>log 2 \<bar>x\<bar>\<rfloor>
           in of_int (round_even (x * 2 powi (int p - 1 - e))) * 2 powi (e + 1 - int p))"

definition f32 :: "real \<Rightarrow> real" where
  "f32 = fround 24"

definition d64 :: "real \<Rightarrow> real" where
  "d64 = fround 53"

fun f32v :: "fval \<Rightarrow> fval" where
  "f32v (Fin x) = Fin (f32 x)"
| "f32v x = x"

fun d64v :: "fval \<Rightarrow> fval" where
  "d64v (Fin x) = Fin (d64 x)"
| "d64v x = x"

subsection \<open>The constants of the header and the state\<close>

text \<open>
  The macros \<open>CORA\<close>, \<open>CORB\<close>, \<open>CORC\<close>, \<open>CORD\<close>, \<open>PARA\<close>, \<open>PARB\<close> and
  \<open>ATMOCO2\<close> are defined in \<open>MQ135.h\<close>, which is not among the sources: they are
  parameters of the model.
\<close>

record coeffs =
  CORA :: real
  CORB :: real
  CORC :: real
  CORD :: real
  PARA :: real
  PARB :: real
  ATMOCO2 :: real

text \<open>
  The three log lines of the driver, with the values they print: \<open>val\<close>, \<open>ref_val\<close>
  and \<open>Rs\<close> in \<open>getResistance\<close>, the counter and \<open>_rzero\<close> after a calibration that
  succeeded, the counter after one that failed.
\<close>

datatype log_line =
  Resistance_info real real fval
| Calibrated_info int real
| Failed_error int

text \<open>
  The object has the fields \<open>_pin\<close> and \<open>_rzero\<close>; \<open>_rzero\<close> is a finite
  \<open>float\<close>. The state also holds what the driver has done to its surroundings: the
  number of calls of \<open>analogRead\<close> and of \<open>vTaskDelay\<close> made so far, and the lines
  logged so far.
\<close>

record state =
  pin :: "8 word"
  rzero :: real
  reads :: nat
  delays :: nat
  logged :: "log_line list"

text \<open>
  The converter is the environment: \<open>adc n p\<close> is what the call number \<open>n\<close> of
  \<open>analogRead\<close> returns (a \<open>uint16_t\<close>) when it samples pin \<open>p\<close>.
\<close>

type_synonym adc = "nat \<Rightarrow> 8 word \<Rightarrow> 16 word"

definition analogRead :: "adc \<Rightarrow> 8 word \<Rightarrow> state \<Rightarrow> 16 word \<times> state" where
  "analogRead adc p s = (adc (reads s) p, s\<lparr>reads := Suc (reads s)\<rparr>)"

definition vTaskDelay :: "state \<Rightarrow> state" where
  "vTaskDelay s = s\<lparr>delays := Suc (delays s)\<rparr>"

definition ESP_LOG :: "log_line \<Rightarrow> state \<Rightarrow> state" where
  "ESP_LOG l s = s\<lparr>logged := logged s @ [l]\<rparr>"

subsection \<open>The conversions\<close>

definition getCorrectionFactor :: "coeffs \<Rightarrow> real \<Rightarrow> real \<Rightarrow> real" where
  "getCorrectionFactor c t h = CORA c * t * t - CORB c * t + CORC c - (h - 33) * CORD c"

text \<open>
  In \<open>getResistance\<close> the reading is an integer, converted to \<open>double\<close> without
  error; the product with 2.450 and the quotient by 4095 are \<open>double\<close> operations and
  the result is stored into a \<open>float\<close>. The expression for \<open>Rs\<close> is evaluated from the
  left in \<open>double\<close> and stored into a \<open>float\<close>.
\<close>

definition getResistance :: "adc \<Rightarrow> state \<Rightarrow> fval \<times> state" where
  "getResistance adc s =
     (let (a, s1) = analogRead adc (pin s) s;
          val = f32 (d64 (d64 (real (unat a) * d64 2.450) / 4095));
          (b, s2) = analogRead adc 33 s1;
          ref_val = f32 (d64 (d64 (real (unat b) * d64 2.450) / 4095));
          Rs = f32v (d64v (fsub (d64v (fdiv (Fin (d64 (d64 (3 * ref_val) * 10.0))) (Fin val)))
                               (Fin 2)));
          s3 = ESP_LOG (Resistance_info val ref_val Rs) s2
      in (Rs, s3))"

definition getCorrectedResistance :: "coeffs \<Rightarrow> adc \<Rightarrow> real \<Rightarrow> real \<Rightarrow> state \<Rightarrow> fval \<times> state" where
  "getCorrectedResistance c adc t h s =
     (let (r, s1) = getResistance adc s
      in (fdiv r (Fin (getCorrectionFactor c t h)), s1))"

definition getPPM :: "coeffs \<Rightarrow> adc \<Rightarrow> state \<Rightarrow> fval \<times> state" where
  "getPPM c adc s =
     (let (r, s1) = getResistance adc s
      in (fmul (Fin (PARA c)) (fpow (fdiv r (Fin (rzero s1))) (Fin (- PARB c))), s1))"

definition getCorrectedPPM :: "coeffs \<Rightarrow> adc \<Rightarrow> real \<Rightarrow> real \<Rightarrow> state \<Rightarrow> fval \<times> state" where
  "getCorrectedPPM c adc t h s =
     (let (r, s1) = getCorrectedResistance c adc t h s
      in (fmul (Fin (PARA c)) (fpow (fdiv r (Fin (rzero s1))) (Fin (- PARB c))), s1))"

definition getRZero :: "coeffs \<Rightarrow> adc \<Rightarrow> state \<Rightarrow> fval \<times> state" where
  "getRZero c adc s =
     (let (r, s1) = getResistance adc s
      in (fmul r (fpow (fdiv (Fin (ATMOCO2 c)) (Fin (PARA c))) (fdiv (Fin 1) (Fin (PARB c)))), s1))"

definition getCorrectedRZero :: "coeffs \<Rightarrow> adc \<Rightarrow> real \<Rightarrow> real \<Rightarrow> state \<Rightarrow> fval \<times> state" where
  "getCorrectedRZero c adc t h s =
     (let (r, s1) = getCorrectedResistance c adc t h s
      in (fmul r (fpow (fdiv (Fin (ATMOCO2 c)) (Fin (PARA c))) (fdiv (Fin 1) (Fin (PARB c)))), s1))"

subsection \<open>The calibration\<close>

text \<open>
  The \<open>for\<close> loop of \<open>calibrateRZero\<close>, entered with the counter \<open>it\<close>. It returns the
  counter and the state with which the loop is left. The counter is a C \<open>int\<close> that
  stays between 0 and 10000. In \<open>_rzero += step\<close> the \<open>float\<close> is added to the
  \<open>double\<close> step in \<open>double\<close>, and the sum is stored into the \<open>float\<close>.
\<close>

function calibrate_loop ::
  "coeffs \<Rightarrow> adc \<Rightarrow> real \<Rightarrow> real \<Rightarrow> real \<Rightarrow> real \<Rightarrow> int \<Rightarrow> state \<Rightarrow> int \<times> state" where
  "calibrate_loop c adc cal_ppm t h step it s =
     (if it < 10000 then
        (let s1 = s\<lparr>rzero := f32 (d64 (rzero s + step))\<rparr>;
             (measurement, s2) = getCorrectedPPM c adc t h s1
         in if (if step < 0 then fle measurement (Fin cal_ppm)
                else fge measurement (Fin cal_ppm))
            then (it, s2)
            else calibrate_loop c adc cal_ppm t h step (it + 1)
                   (if it mod 30 = 0 then vTaskDelay s2 else s2))
      else (it, s))"
  by pat_completeness auto
termination
  by (relation "measure (\<lambda>(c, adc, cal_ppm, t, h, step, it, s). nat (10000 - it))") auto

declare calibrate_loop.simps [simp del]

text \<open>The step is the \<open>double\<close> literal \<open>.1\<close> or its negation.\<close>

definition calibrateRZero ::
  "coeffs \<Rightarrow> adc \<Rightarrow> real \<Rightarrow> real \<Rightarrow> real \<Rightarrow> state \<Rightarrow> bool \<times> state" where
  "calibrateRZero c adc cal_ppm t h s =
     (let (measurement, s1) = getCorrectedPPM c adc t h s;
          step = (if fgt measurement (Fin cal_ppm) then - d64 0.1 else d64 0.1);
          (it, s2) = calibrate_loop c adc cal_ppm t h step 0 s1
      in if it < 1000
         then (True, ESP_LOG (Calibrated_info it (rzero s2)) s2)
         else (False, ESP_LOG (Failed_error it) s2))"

subsection \<open>Notions used to state the properties\<close>

text \<open>
  The voltage that \<open>getResistance\<close> computes from a reading, the resistance it computes
  from the readings number \<open>n\<close> (sensor pin \<open>p\<close>) and \<open>n + 1\<close> (pin 33), and the
  concentration that \<open>getCorrectedPPM\<close> computes from them when \<open>_rzero\<close> is \<open>rz\<close>.
\<close>

definition volts :: "16 word \<Rightarrow> real" where
  "volts w = f32 (d64 (d64 (real (unat w) * d64 2.450) / 4095))"

definition finite_Rs :: "real \<Rightarrow> real \<Rightarrow> real" where
  "finite_Rs val ref_val = f32 (d64 (d64 (d64 (d64 (3 * ref_val) * 10) / val) - 2))"

definition sample_Rs :: "adc \<Rightarrow> 8 word \<Rightarrow> nat \<Rightarrow> fval" where
  "sample_Rs adc p n =
     f32v (d64v (fsub (d64v (fdiv (Fin (d64 (d64 (3 * volts (adc (Suc n) 33)) * 10)))
                                  (Fin (volts (adc n p)))))
                      (Fin 2)))"

definition sample_ppm :: "coeffs \<Rightarrow> adc \<Rightarrow> real \<Rightarrow> real \<Rightarrow> 8 word \<Rightarrow> real \<Rightarrow> nat \<Rightarrow> fval" where
  "sample_ppm c adc t h p rz n =
     fmul (Fin (PARA c))
       (fpow (fdiv (fdiv (sample_Rs adc p n) (Fin (getCorrectionFactor c t h))) (Fin rz))
             (Fin (- PARB c)))"

text \<open>The addition \<open>_rzero += step\<close>, and the state after one pass through the loop body
  that is not followed by a call of \<open>vTaskDelay\<close>.\<close>

definition radd :: "real \<Rightarrow> real \<Rightarrow> real" where
  "radd step r = f32 (d64 (r + step))"

definition pass :: "adc \<Rightarrow> real \<Rightarrow> state \<Rightarrow> state" where
  "pass adc step s = snd (getResistance adc (s\<lparr>rzero := radd step (rzero s)\<rparr>))"

text \<open>The state with which the next pass starts, after a pass with the counter \<open>it\<close>
  that was not left by \<open>break\<close>.\<close>

definition nxt :: "adc \<Rightarrow> real \<Rightarrow> int \<Rightarrow> state \<Rightarrow> state" where
  "nxt adc step it s = (if it mod 30 = 0 then vTaskDelay (pass adc step s) else pass adc step s)"

text \<open>The test that leaves the loop: the measurement has crossed the target.\<close>

definition crossed :: "real \<Rightarrow> fval \<Rightarrow> real \<Rightarrow> bool" where
  "crossed step m cal_ppm = (if step < 0 then fle m (Fin cal_ppm) else fge m (Fin cal_ppm))"

text \<open>
  When the loop is entered in state \<open>s\<close>, its pass number \<open>k\<close> (from 0) has added the
  step \<open>k + 1\<close> times and takes the readings \<open>reads s + 2 * k\<close> and the next one:
  \<open>fresh\<close> is the measurement of that pass and \<open>probe\<close> its test.
\<close>

definition fresh :: "coeffs \<Rightarrow> adc \<Rightarrow> real \<Rightarrow> real \<Rightarrow> real \<Rightarrow> state \<Rightarrow> nat \<Rightarrow> fval" where
  "fresh c adc t h step s k =
     sample_ppm c adc t h (pin s) ((radd step ^^ Suc k) (rzero s)) (reads s + 2 * k)"

definition probe :: "coeffs \<Rightarrow> adc \<Rightarrow> real \<Rightarrow> real \<Rightarrow> real \<Rightarrow> real \<Rightarrow> state \<Rightarrow> nat \<Rightarrow> bool" where
  "probe c adc cal_ppm t h step s k = crossed step (fresh c adc t h step s k) cal_ppm"

text \<open>
  The passes through the loop body, the last one included when it ends in \<open>break\<close>,
  between the counter values \<open>it\<close> at the entry and \<open>it'\<close> at the exit.
\<close>

definition iterations :: "int \<Rightarrow> int \<Rightarrow> nat" where
  "iterations it it' = nat (if it' < 10000 then it' - it + 1 else it' - it)"

text \<open>How many of the counter values \<open>0, \<dots>, n - 1\<close> are multiples of 30.\<close>

definition yields_before :: "int \<Rightarrow> int" where
  "yields_before n = (n + 29) div 30"

text \<open>
  The parts of a call of \<open>calibrateRZero\<close>: the state after the first measurement, the
  step chosen from it, the value of the counter \<open>it\<close> after the loop, and the number of
  passes through the loop body.
\<close>

definition calibration_start :: "coeffs \<Rightarrow> adc \<Rightarrow> real \<Rightarrow> real \<Rightarrow> state \<Rightarrow> state" where
  "calibration_start c adc t h s = snd (getCorrectedPPM c adc t h s)"

definition calibration_step :: "coeffs \<Rightarrow> adc \<Rightarrow> real \<Rightarrow> real \<Rightarrow> real \<Rightarrow> state \<Rightarrow> real" where
  "calibration_step c adc cal_ppm t h s =
     (if fgt (fst (getCorrectedPPM c adc t h s)) (Fin cal_ppm) then - d64 0.1 else d64 0.1)"

definition calibration_it :: "coeffs \<Rightarrow> adc \<Rightarrow> real \<Rightarrow> real \<Rightarrow> real \<Rightarrow> state \<Rightarrow> int" where
  "calibration_it c adc cal_ppm t h s =
     fst (calibrate_loop c adc cal_ppm t h (calibration_step c adc cal_ppm t h s) 0
            (calibration_start c adc t h s))"

definition calibration_passes :: "coeffs \<Rightarrow> adc \<Rightarrow> real \<Rightarrow> real \<Rightarrow> real \<Rightarrow> state \<Rightarrow> nat" where
  "calibration_passes c adc cal_ppm t h s = iterations 0 (calibration_it c adc cal_ppm t h s)"

subsection \<open>Concrete inputs\<close>

text \<open>
  Coefficients of the size the data sheet of the sensor gives; a sensor on pin 34 with
  the calibration constant 76.625, nothing read or logged yet, and the same sensor with
  the calibration constant \<open>2\<^sup>2\<^sup>1\<close>; and six converters: \<open>adc_zero\<close> always
  reads 0; \<open>adc_open\<close> reads 0 on the sensor channel and 1 on the reference channel;
  \<open>adc_at m\<close> reads 0 except for the reference reading of the pass number \<open>m\<close> of a
  calibration started with no reading taken before, which is 1; \<open>adc_level\<close> reads
  945 on the sensor and 63 on the reference channel; \<open>adc_flat\<close> always reads 63;
  \<open>adc_low\<close> reads 1 on the sensor and 13 on the reference channel.
\<close>

definition coeffs0 :: coeffs where
  "coeffs0 = \<lparr>CORA = 0.00035, CORB = 0.02718, CORC = 1.39538, CORD = 0.0018,
              PARA = 116.6020682, PARB = 2.769034857, ATMOCO2 = 397.13\<rparr>"

definition state0 :: state where
  "state0 = \<lparr>pin = 34, rzero = 76.625, reads = 0, delays = 0, logged = []\<rparr>"

definition state_big :: state where
  "state_big = \<lparr>pin = 34, rzero = 2097152, reads = 0, delays = 0, logged = []\<rparr>"

definition adc_zero :: adc where
  "adc_zero n p = 0"

definition adc_open :: adc where
  "adc_open n p = (if odd n then 1 else 0)"

definition adc_at :: "nat \<Rightarrow> adc" where
  "adc_at m n p = (if n = 2 * m + 3 then 1 else 0)"

definition adc_level :: adc where
  "adc_level n p = (if even n then 945 else 63)"

definition adc_flat :: adc where
  "adc_flat n p = 63"

definition adc_low :: adc where
  "adc_low n p = (if even n then 1 else 13)"

section \<open>Lemmas about the model\<close>

subsection \<open>Rounding\<close>

lemma round_even_error: "\<bar>of_int (round_even y) - y\<bar> \<le> 1 / 2"
proof -
  have "of_int \<lfloor>y\<rfloor> \<le> y" "y < of_int \<lfloor>y\<rfloor> + 1" by linarith+
  then show ?thesis unfolding round_even_def Let_def by (auto split: if_splits)
qed

lemma floor_log2_eq:
  assumes "2 powi e \<le> \<bar>x\<bar>" and "\<bar>x\<bar> < 2 powi (e + 1)"
  shows "\<lfloor>log 2 \<bar>x\<bar>\<rfloor> = e"
proof -
  have "(0::real) < 2 powi e" by simp
  then have p: "0 < \<bar>x\<bar>" using assms(1) by linarith
  have a: "(2::real) powr (real_of_int e) = 2 powi e" by (rule powr_real_of_int') simp_all
  have b: "(2::real) powr (real_of_int e + 1) = 2 powi (e + 1)"
    using powr_real_of_int'[of "2::real" "e + 1"] by simp
  show ?thesis using floor_log_eq_powr_iff[OF p, of 2 e] assms a b by simp
qed

lemma floor_log2_bounds:
  assumes "x \<noteq> 0"
  shows "2 powi \<lfloor>log 2 \<bar>x\<bar>\<rfloor> \<le> \<bar>x\<bar>" and "\<bar>x\<bar> < 2 powi (\<lfloor>log 2 \<bar>x\<bar>\<rfloor> + 1)"
proof -
  let ?e = "\<lfloor>log 2 \<bar>x\<bar>\<rfloor>"
  have p: "0 < \<bar>x\<bar>" using assms by simp
  have a: "(2::real) powr (real_of_int ?e) = 2 powi ?e" by (rule powr_real_of_int') simp_all
  have b: "(2::real) powr (real_of_int ?e + 1) = 2 powi (?e + 1)"
    using powr_real_of_int'[of "2::real" "?e + 1"] by simp
  have "2 powr (real_of_int ?e) \<le> \<bar>x\<bar> \<and> \<bar>x\<bar> < 2 powr (real_of_int ?e + 1)"
    using floor_log_eq_powr_iff[OF p, of 2 ?e] by simp
  then show "2 powi ?e \<le> \<bar>x\<bar>" and "\<bar>x\<bar> < 2 powi (?e + 1)" using a b by simp_all
qed

lemma fround_eval:
  assumes "2 powi e \<le> \<bar>x\<bar>" and "\<bar>x\<bar> < 2 powi (e + 1)"
  shows "fround p x = of_int (round_even (x * 2 powi (int p - 1 - e))) * 2 powi (e + 1 - int p)"
proof -
  have "(0::real) < 2 powi e" by simp
  then have "0 < \<bar>x\<bar>" using assms(1) by linarith
  then have "x \<noteq> 0" by simp
  then show ?thesis by (simp add: fround_def floor_log2_eq[OF assms])
qed

lemma fround_0: "fround p 0 = 0"
  by (simp add: fround_def)

lemma fround_error:
  assumes "\<bar>x\<bar> < 2 powi m"
  shows "\<bar>fround p x - x\<bar> \<le> 2 powi (m - 1 - int p)"
proof (cases "x = 0")
  case True
  then show ?thesis by (simp add: fround_0)
next
  case False
  let ?e = "\<lfloor>log 2 \<bar>x\<bar>\<rfloor>"
  let ?u = "(2::real) powi (?e + 1 - int p)"
  let ?y = "x * 2 powi (int p - 1 - ?e)"
  have u: "0 < ?u" by simp
  have inv: "2 powi (int p - 1 - ?e) * ?u = (1::real)"
    by (simp flip: power_int_add)
  have fr: "fround p x = of_int (round_even ?y) * ?u"
    using False by (simp add: fround_def Let_def)
  have "x = ?y * ?u" using inv by (simp add: mult.assoc)
  then have "fround p x - x = (of_int (round_even ?y) - ?y) * ?u"
    unfolding fr by (simp add: algebra_simps)
  then have "\<bar>fround p x - x\<bar> = \<bar>of_int (round_even ?y) - ?y\<bar> * ?u"
    using u by (simp add: abs_mult)
  also have "\<dots> \<le> (1 / 2) * ?u"
    using round_even_error[of ?y] u by (intro mult_right_mono) simp_all
  also have "\<dots> = 2 powi (?e - int p)"
    by (simp add: power_int_add power_int_diff field_simps)
  also have "\<dots> \<le> 2 powi (m - 1 - int p)"
  proof -
    have "2 powi ?e \<le> \<bar>x\<bar>" using floor_log2_bounds(1)[OF False] .
    then have "(2::real) powi ?e < 2 powi m" using assms by linarith
    then have "?e < m" by (smt (verit) power_int_increasing)
    then show ?thesis by (intro power_int_increasing) simp_all
  qed
  finally show ?thesis .
qed

lemma fround_pos:
  assumes "0 < x" and "0 < p"
  shows "0 < fround p x"
proof -
  let ?e = "\<lfloor>log 2 \<bar>x\<bar>\<rfloor>"
  have nz: "x \<noteq> 0" using assms(1) by simp
  have "\<bar>x\<bar> < 2 powi (?e + 1)" using floor_log2_bounds(2)[OF nz] .
  then have "\<bar>fround p x - x\<bar> \<le> 2 powi (?e + 1 - 1 - int p)" by (rule fround_error)
  also have "\<dots> \<le> 2 powi (?e - 1)" using assms(2) by (intro power_int_increasing) simp_all
  also have "\<dots> = 2 powi ?e / 2" by (simp add: power_int_diff)
  also have "\<dots> \<le> x / 2" using floor_log2_bounds(1)[OF nz] assms(1) by simp
  finally show ?thesis using assms(1) by linarith
qed


lemma d64_tenth: "d64 0.1 = 3602879701896397 / 36028797018963968"
  unfolding d64_def
  by (subst fround_eval[where e = "- 4"]) (simp_all add: round_even_def)

lemma d64_245: "d64 2.450 = 2758454771764429 / 1125899906842624"
  unfolding d64_def
  by (subst fround_eval[where e = "1"]) (simp_all add: round_even_def)

lemma f32_pos: "0 < x \<Longrightarrow> 0 < f32 x"
  unfolding f32_def by (rule fround_pos) simp_all

lemma d64_pos: "0 < x \<Longrightarrow> 0 < d64 x"
  unfolding d64_def by (rule fround_pos) simp_all

lemma f32_0: "f32 0 = 0"
  by (simp add: f32_def fround_0)

lemma d64_0: "d64 0 = 0"
  by (simp add: d64_def fround_0)

subsection \<open>The readings and the state\<close>

lemma volts_0: "volts 0 = 0"
  by (simp add: volts_def d64_0 f32_0)

lemma volts_pos: "w \<noteq> 0 \<Longrightarrow> 0 < volts w"
proof -
  assume "w \<noteq> 0"
  then have "unat w \<noteq> 0" by (simp add: unat_eq_0)
  then have "0 < unat w" by (rule neq0_conv[THEN iffD1])
  then have "0 < real (unat w)" by (simp only: of_nat_0_less_iff)
  moreover have "0 < d64 2.450" by (rule d64_pos) simp
  ultimately have "0 < real (unat w) * d64 2.450" by (rule mult_pos_pos)
  then have "0 < d64 (real (unat w) * d64 2.450)" by (rule d64_pos)
  then have "0 < d64 (real (unat w) * d64 2.450) / 4095" by simp
  then have "0 < d64 (d64 (real (unat w) * d64 2.450) / 4095)" by (rule d64_pos)
  then show ?thesis unfolding volts_def by (rule f32_pos)
qed

lemma volts_eq_0: "(volts w = 0) = (w = 0)"
proof (cases "w = 0")
  case True
  then show ?thesis by (simp add: volts_0)
next
  case False
  then have "0 < volts w" by (rule volts_pos)
  then show ?thesis using False by simp
qed

lemma numerator_pos: "0 < r \<Longrightarrow> 0 < d64 (d64 (3 * r) * 10)"
  by (intro d64_pos mult_pos_pos) simp_all

lemma sample_Rs_finite:
  "adc n p \<noteq> 0 \<Longrightarrow>
   sample_Rs adc p n = Fin (finite_Rs (volts (adc n p)) (volts (adc (Suc n) 33)))"
  by (simp add: sample_Rs_def finite_Rs_def fsub_def volts_eq_0)

lemma sample_Rs_zero:
  "adc n p = 0 \<Longrightarrow> sample_Rs adc p n = (if adc (Suc n) 33 = 0 then NaN else PInf)"
proof (cases "adc (Suc n) 33 = 0")
  case True
  assume "adc n p = 0"
  with True show ?thesis by (simp add: sample_Rs_def volts_0 d64_0 fsub_def)
next
  case False
  assume z: "adc n p = 0"
  have "0 < d64 (d64 (3 * volts (adc (Suc n) 33)) * 10)"
    using False by (intro numerator_pos volts_pos)
  then have "fdiv (Fin (d64 (d64 (3 * volts (adc (Suc n) 33)) * 10))) (Fin 0) = PInf"
    by (simp add: inf_sign_def)
  then show ?thesis using False z by (simp add: sample_Rs_def volts_0 fsub_def)
qed

lemma getResistance_fst: "fst (getResistance adc s) = sample_Rs adc (pin s) (reads s)"
  by (simp add: getResistance_def analogRead_def sample_Rs_def volts_def Let_def)

lemma getResistance_snd:
  "snd (getResistance adc s) =
     s\<lparr>reads := reads s + 2,
        logged := logged s @ [Resistance_info (volts (adc (reads s) (pin s)))
                                 (volts (adc (Suc (reads s)) 33))
                                 (sample_Rs adc (pin s) (reads s))]\<rparr>"
  by (simp add: getResistance_def analogRead_def sample_Rs_def volts_def Let_def ESP_LOG_def)

lemma getCorrectedPPM_fst:
  "fst (getCorrectedPPM c adc t h s) = sample_ppm c adc t h (pin s) (rzero s) (reads s)"
  by (simp add: getCorrectedPPM_def getCorrectedResistance_def split_beta
        getResistance_fst getResistance_snd sample_ppm_def)

lemma getCorrectedPPM_snd: "snd (getCorrectedPPM c adc t h s) = snd (getResistance adc s)"
  by (simp add: getCorrectedPPM_def getCorrectedResistance_def split_beta)

lemma pass_fields:
  "pin (pass adc step s) = pin s"
  "rzero (pass adc step s) = radd step (rzero s)"
  "reads (pass adc step s) = reads s + 2"
  "delays (pass adc step s) = delays s"
  by (simp_all add: pass_def getResistance_snd)

subsection \<open>The loop\<close>

lemma loop_unfold:
  "calibrate_loop c adc cal_ppm t h step it s =
     (if it < 10000 then
        if probe c adc cal_ppm t h step s 0
        then (it, pass adc step s)
        else calibrate_loop c adc cal_ppm t h step (it + 1)
               (if it mod 30 = 0 then vTaskDelay (pass adc step s) else pass adc step s)
      else (it, s))"
  by (subst calibrate_loop.simps)
     (simp add: split_beta Let_def getCorrectedPPM_fst getCorrectedPPM_snd probe_def fresh_def
        crossed_def pass_def radd_def)

lemma probe_shift:
  assumes "pin s' = pin s" and "rzero s' = radd step (rzero s)" and "reads s' = reads s + 2"
  shows "probe c adc cal_ppm t h step s' k = probe c adc cal_ppm t h step s (Suc k)"
proof -
  have "(radd step ^^ Suc k) (radd step (rzero s)) = (radd step ^^ Suc (Suc k)) (rzero s)"
    by (simp add: funpow_swap1)
  then show ?thesis using assms by (simp add: probe_def fresh_def)
qed

lemma nxt_fields:
  "pin (nxt adc step it s) = pin s"
  "rzero (nxt adc step it s) = radd step (rzero s)"
  "reads (nxt adc step it s) = reads s + 2"
  "delays (nxt adc step it s) = delays s + (if it mod 30 = 0 then 1 else 0)"
  by (simp_all add: nxt_def vTaskDelay_def pass_fields)

lemma loop_step:
  "it < 10000 \<Longrightarrow> probe c adc cal_ppm t h step s 0 \<Longrightarrow>
   calibrate_loop c adc cal_ppm t h step it s = (it, pass adc step s)"
  "it < 10000 \<Longrightarrow> \<not> probe c adc cal_ppm t h step s 0 \<Longrightarrow>
   calibrate_loop c adc cal_ppm t h step it s =
     calibrate_loop c adc cal_ppm t h step (it + 1) (nxt adc step it s)"
  "\<not> it < 10000 \<Longrightarrow> calibrate_loop c adc cal_ppm t h step it s = (it, s)"
  by (subst loop_unfold, simp add: nxt_def)+

lemma loop_bounds:
  "it \<le> 10000 \<Longrightarrow> it \<le> fst (calibrate_loop c adc cal_ppm t h step it s)
     \<and> fst (calibrate_loop c adc cal_ppm t h step it s) \<le> 10000"
proof (induction "nat (10000 - it)" arbitrary: it s)
  case 0
  then have "\<not> it < 10000" by simp
  then show ?case using "0.prems" by (simp add: loop_step(3))
next
  case (Suc n)
  then have lt: "it < 10000" and n: "n = nat (10000 - (it + 1))" by linarith+
  show ?case
  proof (cases "probe c adc cal_ppm t h step s 0")
    case True
    then show ?thesis using lt by (simp add: loop_step(1))
  next
    case False
    then show ?thesis
      using lt Suc.hyps(1)[OF n, of "nxt adc step it s"] by (simp add: loop_step(2))
  qed
qed

lemma div30: "0 \<le> r \<Longrightarrow> r < 30 \<Longrightarrow> (30 * k + r) div 30 = (k::int)"
  by simp

lemma yields_step:
  "yields_before (it + 1) - yields_before it = (if it mod 30 = 0 then 1 else 0)"
proof -
  define q where "q = it div 30"
  define r where "r = it mod 30"
  have it: "it = 30 * q + r" and r: "0 \<le> r" "r < 30"
    by (simp_all add: q_def r_def)
  have "it + 1 + 29 = 30 * (q + 1) + r" using it by simp
  then have a: "(it + 1 + 29) div 30 = q + 1" using div30[OF r, of "q + 1"] by simp
  show ?thesis
  proof (cases "r = 0")
    case True
    then have "it + 29 = 30 * q + 29" using it by simp
    then have "(it + 29) div 30 = q" using div30[of 29 q] by simp
    then show ?thesis using a True unfolding yields_before_def r_def by simp
  next
    case False
    then have r1: "0 \<le> r - 1" "r - 1 < 30" using r by simp_all
    have "it + 29 = 30 * (q + 1) + (r - 1)" using it by simp
    then have "(it + 29) div 30 = q + 1" using div30[OF r1, of "q + 1"] by simp
    then show ?thesis using a False unfolding yields_before_def r_def by simp
  qed
qed

lemma yields_mono: "a \<le> b \<Longrightarrow> yields_before a \<le> yields_before b"
  unfolding yields_before_def by (rule zdiv_mono1) simp_all


lemma iterations_Suc:
  assumes "it + 1 \<le> it'"
  shows "iterations it it' = Suc (iterations (it + 1) it')"
proof (cases "it' < 10000")
  case True
  then have "iterations it it' = nat (it' - it + 1)"
    and "iterations (it + 1) it' = nat (it' - it)" by (simp_all add: iterations_def)
  then show ?thesis using assms by linarith
next
  case False
  then have "iterations it it' = nat (it' - it)"
    and "iterations (it + 1) it' = nat (it' - it - 1)"
    by (simp_all add: iterations_def algebra_simps)
  then show ?thesis using assms by linarith
qed

lemma yields_split:
  assumes "it + 1 \<le> it'"
  shows "nat (yields_before it' - yields_before it)
        = (if it mod 30 = 0 then 1 else 0) + nat (yields_before it' - yields_before (it + 1))"
proof -
  define Y where "Y = yields_before it"
  define Y1 where "Y1 = yields_before (it + 1)"
  define Y' where "Y' = yields_before it'"
  define d :: int where "d = (if it mod 30 = 0 then 1 else 0)"
  have d1: "Y1 - Y = d" unfolding Y_def Y1_def d_def by (rule yields_step)
  have d2: "Y1 \<le> Y'" unfolding Y1_def Y'_def by (rule yields_mono[OF assms])
  have d3: "0 \<le> d" unfolding d_def by simp
  have "nat (Y' - Y) = nat d + nat (Y' - Y1)" using d1 d2 d3 by linarith
  moreover have "nat d = (if it mod 30 = 0 then 1 else 0)" unfolding d_def by simp
  ultimately show ?thesis unfolding Y_def Y1_def Y'_def by simp
qed

lemma loop_fields:
  "it \<le> 10000 \<Longrightarrow> calibrate_loop c adc cal_ppm t h step it s = (it', s') \<Longrightarrow>
   pin s' = pin s
   \<and> rzero s' = (radd step ^^ iterations it it') (rzero s)
   \<and> reads s' = reads s + 2 * iterations it it'
   \<and> delays s' = delays s + nat (yields_before it' - yields_before it)"
proof (induction "nat (10000 - it)" arbitrary: it s)
  case 0
  then have "\<not> it < 10000" and "it = 10000" by simp_all
  then show ?case using "0.prems"(2) by (auto simp add: loop_step(3) iterations_def)
next
  case (Suc n)
  then have lt: "it < 10000" and n: "n = nat (10000 - (it + 1))" by linarith+
  show ?case
  proof (cases "probe c adc cal_ppm t h step s 0")
    case True
    then have "it' = it" and "s' = pass adc step s"
      using lt Suc.prems(2) by (simp_all add: loop_step(1))
    then show ?thesis using lt by (simp add: iterations_def pass_fields)
  next
    case False
    let ?s1 = "nxt adc step it s"
    have eq: "calibrate_loop c adc cal_ppm t h step (it + 1) ?s1 = (it', s')"
      using False lt Suc.prems(2) by (simp add: loop_step(2))
    have le: "it + 1 \<le> it'"
      using loop_bounds[of "it + 1" c adc cal_ppm t h step ?s1] lt eq by simp
    have ih: "pin s' = pin ?s1
       \<and> rzero s' = (radd step ^^ iterations (it + 1) it') (rzero ?s1)
       \<and> reads s' = reads ?s1 + 2 * iterations (it + 1) it'
       \<and> delays s' = delays ?s1 + nat (yields_before it' - yields_before (it + 1))"
      using Suc.hyps(1)[OF n _ eq] lt by simp
    have r: "(radd step ^^ iterations (it + 1) it') (radd step (rzero s))
        = (radd step ^^ iterations it it') (rzero s)"
      unfolding iterations_Suc[OF le] by (simp add: funpow_swap1)
    show ?thesis
      using ih r unfolding nxt_fields yields_split[OF le] iterations_Suc[OF le] by simp
  qed
qed

lemma loop_no_earlier:
  "it \<le> 10000 \<Longrightarrow> fst (calibrate_loop c adc cal_ppm t h step it s) = it' \<Longrightarrow>
   it \<le> j \<Longrightarrow> j < it' \<Longrightarrow> \<not> probe c adc cal_ppm t h step s (nat (j - it))"
proof (induction "nat (10000 - it)" arbitrary: it s)
  case 0
  then have "\<not> it < 10000" by simp
  then show ?case using "0.prems" by (simp add: loop_step(3))
next
  case (Suc n)
  then have lt: "it < 10000" and n: "n = nat (10000 - (it + 1))" by linarith+
  show ?case
  proof (cases "probe c adc cal_ppm t h step s 0")
    case True
    then show ?thesis using lt Suc.prems by (simp add: loop_step(1))
  next
    case False
    let ?s1 = "nxt adc step it s"
    have eq: "fst (calibrate_loop c adc cal_ppm t h step (it + 1) ?s1) = it'"
      using False lt Suc.prems(2) by (simp add: loop_step(2))
    show ?thesis
    proof (cases "j = it")
      case True
      then show ?thesis using False by simp
    next
      case False
      then have j: "it + 1 \<le> j" using Suc.prems(3) by simp
      have "\<not> probe c adc cal_ppm t h step ?s1 (nat (j - (it + 1)))"
        using Suc.hyps(1)[OF n _ eq j Suc.prems(4)] lt by simp
      moreover have "Suc (nat (j - (it + 1))) = nat (j - it)" using j by simp
      ultimately show ?thesis
        using probe_shift[of ?s1 s step c adc cal_ppm t h "nat (j - (it + 1))"]
        by (simp add: nxt_fields)
    qed
  qed
qed

lemma loop_crossed:
  "it \<le> 10000 \<Longrightarrow> fst (calibrate_loop c adc cal_ppm t h step it s) = it' \<Longrightarrow>
   it' < 10000 \<Longrightarrow> probe c adc cal_ppm t h step s (nat (it' - it))"
proof (induction "nat (10000 - it)" arbitrary: it s)
  case 0
  then have "\<not> it < 10000" by simp
  then show ?case using "0.prems" by (simp add: loop_step(3))
next
  case (Suc n)
  then have lt: "it < 10000" and n: "n = nat (10000 - (it + 1))" by linarith+
  show ?case
  proof (cases "probe c adc cal_ppm t h step s 0")
    case True
    then show ?thesis using lt Suc.prems by (simp add: loop_step(1))
  next
    case False
    let ?s1 = "nxt adc step it s"
    have eq: "fst (calibrate_loop c adc cal_ppm t h step (it + 1) ?s1) = it'"
      using False lt Suc.prems(2) by (simp add: loop_step(2))
    have le: "it + 1 \<le> it'"
      using loop_bounds[of "it + 1" c adc cal_ppm t h step ?s1] lt eq by simp
    have "probe c adc cal_ppm t h step ?s1 (nat (it' - (it + 1)))"
      using Suc.hyps(1)[OF n _ eq Suc.prems(3)] lt by simp
    moreover have "Suc (nat (it' - (it + 1))) = nat (it' - it)" using le by simp
    ultimately show ?thesis
      using probe_shift[of ?s1 s step c adc cal_ppm t h "nat (it' - (it + 1))"]
      by (simp add: nxt_fields)
  qed
qed

subsection \<open>A call of the calibration\<close>

lemma calibration_start_fields:
  "pin (calibration_start c adc t h s) = pin s"
  "rzero (calibration_start c adc t h s) = rzero s"
  "reads (calibration_start c adc t h s) = reads s + 2"
  "delays (calibration_start c adc t h s) = delays s"
  by (simp_all add: calibration_start_def getCorrectedPPM_snd getResistance_snd)

lemma calibrateRZero_fst:
  "fst (calibrateRZero c adc cal_ppm t h s) = (calibration_it c adc cal_ppm t h s < 1000)"
  by (simp add: calibrateRZero_def calibration_it_def calibration_step_def
        calibration_start_def split_beta Let_def)

lemma calibrateRZero_snd:
  "pin (snd (calibrateRZero c adc cal_ppm t h s)) =
     pin (snd (calibrate_loop c adc cal_ppm t h (calibration_step c adc cal_ppm t h s) 0
                 (calibration_start c adc t h s)))"
  "rzero (snd (calibrateRZero c adc cal_ppm t h s)) =
     rzero (snd (calibrate_loop c adc cal_ppm t h (calibration_step c adc cal_ppm t h s) 0
                   (calibration_start c adc t h s)))"
  "reads (snd (calibrateRZero c adc cal_ppm t h s)) =
     reads (snd (calibrate_loop c adc cal_ppm t h (calibration_step c adc cal_ppm t h s) 0
                   (calibration_start c adc t h s)))"
  "delays (snd (calibrateRZero c adc cal_ppm t h s)) =
     delays (snd (calibrate_loop c adc cal_ppm t h (calibration_step c adc cal_ppm t h s) 0
                    (calibration_start c adc t h s)))"
  by (simp_all add: calibrateRZero_def calibration_step_def calibration_start_def
        split_beta Let_def ESP_LOG_def)

lemma calibration_it_bounds:
  "0 \<le> calibration_it c adc cal_ppm t h s \<and> calibration_it c adc cal_ppm t h s \<le> 10000"
  unfolding calibration_it_def
  using loop_bounds[of 0 c adc cal_ppm t h "calibration_step c adc cal_ppm t h s"
      "calibration_start c adc t h s"] by simp

lemma calibration_passes_eq:
  "calibration_passes c adc cal_ppm t h s =
     (if calibration_it c adc cal_ppm t h s < 10000
      then nat (calibration_it c adc cal_ppm t h s) + 1 else 10000)"
  using calibration_it_bounds[of c adc cal_ppm t h s]
  by (auto simp add: calibration_passes_def iterations_def nat_add_distrib)

lemma yields_before_0: "yields_before 0 = 0"
  by (simp add: yields_before_def)

lemma calibrateRZero_fields:
  "pin (snd (calibrateRZero c adc cal_ppm t h s)) = pin s"
  "rzero (snd (calibrateRZero c adc cal_ppm t h s)) =
     (radd (calibration_step c adc cal_ppm t h s) ^^ calibration_passes c adc cal_ppm t h s)
       (rzero s)"
  "reads (snd (calibrateRZero c adc cal_ppm t h s)) =
     reads s + 2 + 2 * calibration_passes c adc cal_ppm t h s"
  "delays (snd (calibrateRZero c adc cal_ppm t h s)) =
     delays s + nat (yields_before (calibration_it c adc cal_ppm t h s))"
proof -
  let ?step = "calibration_step c adc cal_ppm t h s"
  let ?s1 = "calibration_start c adc t h s"
  let ?it = "calibration_it c adc cal_ppm t h s"
  obtain s' where eq: "calibrate_loop c adc cal_ppm t h ?step 0 ?s1 = (?it, s')"
    unfolding calibration_it_def by (cases "calibrate_loop c adc cal_ppm t h ?step 0 ?s1") simp
  have f: "pin s' = pin ?s1
     \<and> rzero s' = (radd ?step ^^ iterations 0 ?it) (rzero ?s1)
     \<and> reads s' = reads ?s1 + 2 * iterations 0 ?it
     \<and> delays s' = delays ?s1 + nat (yields_before ?it - yields_before 0)"
    using loop_fields[OF _ eq] by simp
  show "pin (snd (calibrateRZero c adc cal_ppm t h s)) = pin s"
    using f by (simp add: calibrateRZero_snd eq calibration_start_fields)
  show "rzero (snd (calibrateRZero c adc cal_ppm t h s)) =
     (radd ?step ^^ calibration_passes c adc cal_ppm t h s) (rzero s)"
    using f by (simp add: calibrateRZero_snd eq calibration_start_fields calibration_passes_def)
  show "reads (snd (calibrateRZero c adc cal_ppm t h s)) =
     reads s + 2 + 2 * calibration_passes c adc cal_ppm t h s"
    using f by (simp add: calibrateRZero_snd eq calibration_start_fields calibration_passes_def)
  show "delays (snd (calibrateRZero c adc cal_ppm t h s)) = delays s + nat (yields_before ?it)"
    using f by (simp add: calibrateRZero_snd eq calibration_start_fields yields_before_0)
qed

lemma loop_exhaust:
  assumes "\<And>k. \<not> probe c adc cal_ppm t h step s k"
  shows "fst (calibrate_loop c adc cal_ppm t h step 0 s) = 10000"
proof -
  let ?it = "fst (calibrate_loop c adc cal_ppm t h step 0 s)"
  have "\<not> ?it < 10000" using loop_crossed[of 0 c adc cal_ppm t h step s ?it] assms by auto
  moreover have "?it \<le> 10000" using loop_bounds[of 0 c adc cal_ppm t h step s] by simp
  ultimately show ?thesis by simp
qed

lemma loop_first:
  assumes "\<And>j. j < k \<Longrightarrow> \<not> probe c adc cal_ppm t h step s j"
    and "probe c adc cal_ppm t h step s k" and "k < 10000"
  shows "fst (calibrate_loop c adc cal_ppm t h step 0 s) = int k"
proof -
  let ?it = "fst (calibrate_loop c adc cal_ppm t h step 0 s)"
  have b: "0 \<le> ?it" "?it \<le> 10000" using loop_bounds[of 0 c adc cal_ppm t h step s] by simp_all
  have "\<not> ?it < int k"
  proof
    assume l: "?it < int k"
    then have "probe c adc cal_ppm t h step s (nat (?it - 0))"
      using loop_crossed[of 0 c adc cal_ppm t h step s ?it] assms(3) by simp
    moreover have "nat ?it < k" using l b by linarith
    ultimately show False using assms(1)[of "nat ?it"] by simp
  qed
  moreover have "\<not> int k < ?it"
  proof
    assume "int k < ?it"
    then have "\<not> probe c adc cal_ppm t h step s (nat (int k - 0))"
      using loop_no_earlier[of 0 c adc cal_ppm t h step s ?it "int k"] by simp
    then show False using assms(2) by simp
  qed
  ultimately show ?thesis by simp
qed

lemma step_values:
  "calibration_step c adc cal_ppm t h s = d64 0.1
   \<or> calibration_step c adc cal_ppm t h s = - d64 0.1"
  by (simp add: calibration_step_def)

lemma passes_pos: "1 \<le> calibration_passes c adc cal_ppm t h s"
  by (simp add: calibration_passes_eq)

subsection \<open>How far one addition moves the calibration constant\<close>

lemma radd_near:
  assumes "\<bar>r\<bar> \<le> 2097151" and "\<bar>step\<bar> \<le> 1 / 2"
  shows "\<bar>radd step r - (r + step)\<bar> \<le> 1 / 16 + 1 / 8589934592"
proof -
  let ?x = "r + step"
  have "\<bar>?x\<bar> < 2097152" using assms by linarith
  then have x: "\<bar>?x\<bar> < 2 powi 21" by simp
  have "\<bar>d64 ?x - ?x\<bar> \<le> 2 powi (21 - 1 - int 53)"
    unfolding d64_def using x by (rule fround_error)
  then have a: "\<bar>d64 ?x - ?x\<bar> \<le> 1 / 8589934592" by simp
  have "\<bar>d64 ?x\<bar> < 2097152" using a assms by linarith
  then have "\<bar>d64 ?x\<bar> < 2 powi 21" by simp
  then have "\<bar>f32 (d64 ?x) - d64 ?x\<bar> \<le> 2 powi (21 - 1 - int 24)"
    unfolding f32_def by (rule fround_error)
  then have b: "\<bar>f32 (d64 ?x) - d64 ?x\<bar> \<le> 1 / 16" by simp
  show ?thesis unfolding radd_def using a b by linarith
qed

lemma tenth_bounds: "999 / 10000 \<le> d64 0.1" "d64 0.1 \<le> 1001 / 10000"
  by (simp_all add: d64_tenth)

lemma radd_up:
  assumes "\<bar>r\<bar> \<le> 2097151"
  shows "3 / 100 \<le> radd (d64 0.1) r - r" and "radd (d64 0.1) r - r \<le> 17 / 100"
proof -
  have "\<bar>d64 0.1\<bar> \<le> 1 / 2" using tenth_bounds by linarith
  then have n: "\<bar>radd (d64 0.1) r - (r + d64 0.1)\<bar> \<le> 1 / 16 + 1 / 8589934592"
    using assms by (intro radd_near)
  show "3 / 100 \<le> radd (d64 0.1) r - r" using n tenth_bounds by linarith
  show "radd (d64 0.1) r - r \<le> 17 / 100" using n tenth_bounds by linarith
qed

lemma radd_down:
  assumes "\<bar>r\<bar> \<le> 2097151"
  shows "3 / 100 \<le> r - radd (- d64 0.1) r" and "r - radd (- d64 0.1) r \<le> 17 / 100"
proof -
  have "\<bar>- d64 0.1\<bar> \<le> 1 / 2" using tenth_bounds by linarith
  then have n: "\<bar>radd (- d64 0.1) r - (r + - d64 0.1)\<bar> \<le> 1 / 16 + 1 / 8589934592"
    using assms by (intro radd_near)
  show "3 / 100 \<le> r - radd (- d64 0.1) r" using n tenth_bounds by linarith
  show "r - radd (- d64 0.1) r \<le> 17 / 100" using n tenth_bounds by linarith
qed

lemma radd_up_iter:
  "n \<le> 10000 \<Longrightarrow> \<bar>r\<bar> \<le> 2000000 \<Longrightarrow>
   3 / 100 * real n \<le> (radd (d64 0.1) ^^ n) r - r
   \<and> (radd (d64 0.1) ^^ n) r - r \<le> 17 / 100 * real n"
proof (induction n)
  case 0
  then show ?case by simp
next
  case (Suc n)
  let ?rn = "(radd (d64 0.1) ^^ n) r"
  have ih: "3 / 100 * real n \<le> ?rn - r" "?rn - r \<le> 17 / 100 * real n"
    using Suc by simp_all
  have n: "real n \<le> 10000" using Suc.prems(1) by simp
  have "\<bar>?rn\<bar> \<le> 2097151" using ih n Suc.prems(2) by linarith
  then have st: "3 / 100 \<le> radd (d64 0.1) ?rn - ?rn" "radd (d64 0.1) ?rn - ?rn \<le> 17 / 100"
    by (rule radd_up)+
  have s: "(radd (d64 0.1) ^^ Suc n) r = radd (d64 0.1) ?rn" by simp
  have rs: "3 / 100 * real (Suc n) = 3 / 100 * real n + 3 / 100"
    "17 / 100 * real (Suc n) = 17 / 100 * real n + 17 / 100" by (simp_all add: algebra_simps)
  show ?case unfolding s rs using ih st by (intro conjI) linarith+
qed

lemma radd_down_iter:
  "n \<le> 10000 \<Longrightarrow> \<bar>r\<bar> \<le> 2000000 \<Longrightarrow>
   3 / 100 * real n \<le> r - (radd (- d64 0.1) ^^ n) r
   \<and> r - (radd (- d64 0.1) ^^ n) r \<le> 17 / 100 * real n"
proof (induction n)
  case 0
  then show ?case by simp
next
  case (Suc n)
  let ?rn = "(radd (- d64 0.1) ^^ n) r"
  have ih: "3 / 100 * real n \<le> r - ?rn" "r - ?rn \<le> 17 / 100 * real n"
    using Suc by simp_all
  have n: "real n \<le> 10000" using Suc.prems(1) by simp
  have "\<bar>?rn\<bar> \<le> 2097151" using ih n Suc.prems(2) by linarith
  then have st: "3 / 100 \<le> ?rn - radd (- d64 0.1) ?rn" "?rn - radd (- d64 0.1) ?rn \<le> 17 / 100"
    by (rule radd_down)+
  have s: "(radd (- d64 0.1) ^^ Suc n) r = radd (- d64 0.1) ?rn" by simp
  have rs: "3 / 100 * real (Suc n) = 3 / 100 * real n + 3 / 100"
    "17 / 100 * real (Suc n) = 17 / 100 * real n + 17 / 100" by (simp_all add: algebra_simps)
  show ?case unfolding s rs using ih st by (intro conjI) linarith+
qed

lemma radd_iter_moves:
  assumes "step = d64 0.1 \<or> step = - d64 0.1" and "n \<le> 10000" and "\<bar>r\<bar> \<le> 2000000"
  shows "3 / 100 * real n \<le> \<bar>(radd step ^^ n) r - r\<bar>"
proof -
  have n: "0 \<le> 3 / 100 * real n" by simp
  from assms(1) show ?thesis
  proof
    assume "step = d64 0.1"
    then show ?thesis using radd_up_iter[OF assms(2,3)] n by (simp; linarith?)
  next
    assume "step = - d64 0.1"
    then show ?thesis using radd_down_iter[OF assms(2,3)] n by (simp; linarith?)
  qed
qed

lemma funpow_fixed: "f x = x \<Longrightarrow> (f ^^ n) x = x"
  by (induction n) simp_all

subsection \<open>The concrete inputs\<close>

lemma volts_1: "volts 1 = 5139277 / 8589934592"
proof -
  have w: "real (unat (1::16 word)) = 1" by simp
  have a: "d64 (1 * (2758454771764429 / 1125899906842624)) = 2758454771764429 / 1125899906842624"
    unfolding d64_def by (subst fround_eval[where e = "1"]) (simp_all add: round_even_def)
  have b: "d64 (2758454771764429 / 1125899906842624 / 4095) = 2759128387093309 / 4611686018427387904"
    unfolding d64_def by (subst fround_eval[where e = "-11"]) (simp_all add: round_even_def)
  have c: "f32 (2759128387093309 / 4611686018427387904) = 5139277 / 8589934592"
    unfolding f32_def by (subst fround_eval[where e = "-11"]) (simp_all add: round_even_def)
  show ?thesis unfolding volts_def w d64_245 a b c by (rule refl)
qed

lemma volts_13: "volts 13 = 16702651 / 2147483648"
proof -
  have w: "real (unat (13::16 word)) = 13" by simp
  have a: "d64 (13 * (2758454771764429 / 1125899906842624)) = 4482489004117197 / 140737488355328"
    unfolding d64_def by (subst fround_eval[where e = "4"]) (simp_all add: round_even_def)
  have b: "d64 (4482489004117197 / 140737488355328 / 4095) = 8967167258053255 / 1152921504606846976"
    unfolding d64_def by (subst fround_eval[where e = "-8"]) (simp_all add: round_even_def)
  have c: "f32 (8967167258053255 / 1152921504606846976) = 16702651 / 2147483648"
    unfolding f32_def by (subst fround_eval[where e = "-8"]) (simp_all add: round_even_def)
  show ?thesis unfolding volts_def w d64_245 a b c by (rule refl)
qed

lemma volts_63: "volts 63 = 158093 / 4194304"
proof -
  have w: "real (unat (63::16 word)) = 63" by simp
  have a: "d64 (63 * (2758454771764429 / 1125899906842624)) = 1357676957977805 / 8796093022208"
    unfolding d64_def by (subst fround_eval[where e = "7"]) (simp_all add: round_even_def)
  have b: "d64 (1357676957977805 / 8796093022208 / 4095) = 5432034012089953 / 144115188075855872"
    unfolding d64_def by (subst fround_eval[where e = "-5"]) (simp_all add: round_even_def)
  have c: "f32 (5432034012089953 / 144115188075855872) = 158093 / 4194304"
    unfolding f32_def by (subst fround_eval[where e = "-5"]) (simp_all add: round_even_def)
  show ?thesis unfolding volts_def w d64_245 a b c by (rule refl)
qed

lemma volts_945: "volts 945 = 2371395 / 4194304"
proof -
  have w: "real (unat (945::16 word)) = 945" by simp
  have a: "d64 (945 * (2758454771764429 / 1125899906842624)) = 9261 / 4"
    unfolding d64_def by (subst fround_eval[where e = "11"]) (simp_all add: round_even_def)
  have b: "d64 (9261 / 4 / 4095) = 2546265943167165 / 4503599627370496"
    unfolding d64_def by (subst fround_eval[where e = "-1"]) (simp_all add: round_even_def)
  have c: "f32 (2546265943167165 / 4503599627370496) = 2371395 / 4194304"
    unfolding f32_def by (subst fround_eval[where e = "-1"]) (simp_all add: round_even_def)
  show ?thesis unfolding volts_def w d64_245 a b c by (rule refl)
qed

lemma finite_Rs_flat: "finite_Rs (158093 / 4194304) (158093 / 4194304) = 28"
proof -
  have a: "d64 (3 * (158093 / 4194304)) = 474279 / 4194304"
    unfolding d64_def by (subst fround_eval[where e = "-4"]) (simp_all add: round_even_def)
  have b: "d64 (474279 / 4194304 * 10) = 2371395 / 2097152"
    unfolding d64_def by (subst fround_eval[where e = "0"]) (simp_all add: round_even_def)
  have c: "d64 (2371395 / 2097152 / (158093 / 4194304)) = 30"
    unfolding d64_def by (subst fround_eval[where e = "4"]) (simp_all add: round_even_def)
  have d: "d64 (30 - 2) = 28"
    unfolding d64_def by (subst fround_eval[where e = "4"]) (simp_all add: round_even_def)
  have e: "f32 (28) = 28"
    unfolding f32_def by (subst fround_eval[where e = "4"]) (simp_all add: round_even_def)
  show ?thesis unfolding finite_Rs_def a b c d e by (rule refl)
qed

lemma finite_Rs_level: "finite_Rs (2371395 / 4194304) (158093 / 4194304) = 0"
proof -
  have a: "d64 (3 * (158093 / 4194304)) = 474279 / 4194304"
    unfolding d64_def by (subst fround_eval[where e = "-4"]) (simp_all add: round_even_def)
  have b: "d64 (474279 / 4194304 * 10) = 2371395 / 2097152"
    unfolding d64_def by (subst fround_eval[where e = "0"]) (simp_all add: round_even_def)
  have c: "d64 (2371395 / 2097152 / (2371395 / 4194304)) = 2"
    unfolding d64_def by (subst fround_eval[where e = "1"]) (simp_all add: round_even_def)
  have d: "d64 (2 - 2) = 0"
    by (simp add: d64_def fround_0)
  have e: "f32 (0) = 0"
    by (simp add: f32_def fround_0)
  show ?thesis unfolding finite_Rs_def a b c d e by (rule refl)
qed

lemma finite_Rs_low: "finite_Rs (5139277 / 8589934592) (16702651 / 2147483648) = 12713985 / 32768"
proof -
  have a: "d64 (3 * (16702651 / 2147483648)) = 50107953 / 2147483648"
    unfolding d64_def by (subst fround_eval[where e = "-6"]) (simp_all add: round_even_def)
  have b: "d64 (50107953 / 2147483648 * 10) = 250539765 / 1073741824"
    unfolding d64_def by (subst fround_eval[where e = "-3"]) (simp_all add: round_even_def)
  have c: "d64 (250539765 / 1073741824 / (5139277 / 8589934592)) = 6860952865399961 / 17592186044416"
    unfolding d64_def by (subst fround_eval[where e = "8"]) (simp_all add: round_even_def)
  have d: "d64 (6860952865399961 / 17592186044416 - 2) = 6825768493311129 / 17592186044416"
    unfolding d64_def by (subst fround_eval[where e = "8"]) (simp_all add: round_even_def)
  have e: "f32 (6825768493311129 / 17592186044416) = 12713985 / 32768"
    unfolding f32_def by (subst fround_eval[where e = "8"]) (simp_all add: round_even_def)
  show ?thesis unfolding finite_Rs_def a b c d e by (rule refl)
qed

lemma radd_big: "radd (d64 0.1) (2097152) = 2097152"
proof -
  have a: "d64 (2097152 + 3602879701896397 / 36028797018963968) = 4503599842118861 / 2147483648"
    unfolding d64_def by (subst fround_eval[where e = "21"]) (simp_all add: round_even_def)
  have b: "f32 (4503599842118861 / 2147483648) = 2097152"
    unfolding f32_def by (subst fround_eval[where e = "21"]) (simp_all add: round_even_def)
  show ?thesis unfolding radd_def d64_tenth a b by (rule refl)
qed

lemma radd_step_1: "radd (d64 0.1) (613 / 8) = 10056499 / 131072"
proof -
  have a: "d64 (613 / 8 + 3602879701896397 / 36028797018963968) = 2699520948515635 / 35184372088832"
    unfolding d64_def by (subst fround_eval[where e = "6"]) (simp_all add: round_even_def)
  have b: "f32 (2699520948515635 / 35184372088832) = 10056499 / 131072"
    unfolding f32_def by (subst fround_eval[where e = "6"]) (simp_all add: round_even_def)
  show ?thesis unfolding radd_def d64_tenth a b by (rule refl)
qed

lemma radd_step_2: "radd (d64 0.1) (10056499 / 131072) = 5034803 / 65536"
proof -
  have a: "d64 (10056499 / 131072 + 3602879701896397 / 36028797018963968) = 2703039332037427 / 35184372088832"
    unfolding d64_def by (subst fround_eval[where e = "6"]) (simp_all add: round_even_def)
  have b: "f32 (2703039332037427 / 35184372088832) = 5034803 / 65536"
    unfolding f32_def by (subst fround_eval[where e = "6"]) (simp_all add: round_even_def)
  show ?thesis unfolding radd_def d64_tenth a b by (rule refl)
qed

lemma radd_step_3: "radd (d64 0.1) (5034803 / 65536) = 10082713 / 131072"
proof -
  have a: "d64 (5034803 / 65536 + 3602879701896397 / 36028797018963968) = 2706557715559219 / 35184372088832"
    unfolding d64_def by (subst fround_eval[where e = "6"]) (simp_all add: round_even_def)
  have b: "f32 (2706557715559219 / 35184372088832) = 10082713 / 131072"
    unfolding f32_def by (subst fround_eval[where e = "6"]) (simp_all add: round_even_def)
  show ?thesis unfolding radd_def d64_tenth a b by (rule refl)
qed


lemma factor0: "getCorrectionFactor coeffs0 20 33 = 0.99178"
  by (simp add: getCorrectionFactor_def coeffs0_def)

lemma Rs_zero: "sample_Rs adc_zero p n = NaN"
  by (simp add: sample_Rs_zero adc_zero_def)

lemma ppm_zero: "sample_ppm coeffs0 adc_zero t h p rz n = NaN"
  by (simp add: sample_ppm_def Rs_zero coeffs0_def)

lemma probe_zero: "\<not> probe coeffs0 adc_zero cal_ppm t h step s k"
  by (simp add: probe_def fresh_def crossed_def ppm_zero fge_def)

lemma Rs_open: "even n \<Longrightarrow> sample_Rs adc_open p n = PInf"
  by (simp add: sample_Rs_zero adc_open_def)

lemma ppm_inf: "sample_Rs adc p n = PInf \<Longrightarrow> sample_ppm coeffs0 adc 20 33 p rz n = Fin 0"
  by (simp add: sample_ppm_def factor0 inf_sign_def) (simp add: coeffs0_def)

lemma ppm_open: "even n \<Longrightarrow> sample_ppm coeffs0 adc_open 20 33 p rz n = Fin 0"
  by (rule ppm_inf) (rule Rs_open)

lemma Rs_at: "even n \<Longrightarrow> sample_Rs (adc_at m) p n = (if n = 2 * m + 2 then PInf else NaN)"
proof -
  assume e: "even n"
  then have "n \<noteq> 2 * m + 3" by presburger
  then have z: "adc_at m n p = 0" by (simp add: adc_at_def)
  show ?thesis unfolding sample_Rs_zero[of "adc_at m" n p, OF z] by (auto simp add: adc_at_def)
qed

lemma ppm_at:
  "even n \<Longrightarrow>
   sample_ppm coeffs0 (adc_at m) 20 33 p rz n = (if n = 2 * m + 2 then Fin 0 else NaN)"
proof (cases "n = 2 * m + 2")
  case True
  assume "even n"
  then have "sample_Rs (adc_at m) p n = PInf" using True by (simp add: Rs_at)
  then show ?thesis using True by (simp add: ppm_inf)
next
  case False
  assume "even n"
  then have "sample_Rs (adc_at m) p n = NaN" using False by (simp add: Rs_at)
  then show ?thesis using False by (simp add: sample_ppm_def coeffs0_def)
qed

lemma tenth_pos: "\<not> d64 0.1 < 0"
  using tenth_bounds by linarith

lemma step_at: "calibration_step coeffs0 (adc_at m) 0 20 33 state0 = d64 0.1"
  by (simp add: calibration_step_def getCorrectedPPM_fst state0_def ppm_at fgt_def)

lemma probe_at:
  "probe coeffs0 (adc_at m) 0 20 33 (d64 0.1) (calibration_start coeffs0 (adc_at m) 20 33 state0) k
     = (k = m)"
  using tenth_pos
  by (auto simp add: probe_def fresh_def crossed_def calibration_start_fields state0_def ppm_at
        fge_def simp del: funpow.simps)

lemma it_at: "m < 10000 \<Longrightarrow> calibration_it coeffs0 (adc_at m) 0 20 33 state0 = int m"
  unfolding calibration_it_def step_at
  by (rule loop_first) (simp_all add: probe_at)

lemma it_zero: "calibration_it coeffs0 adc_zero cal_ppm t h s = 10000"
  unfolding calibration_it_def by (rule loop_exhaust) (rule probe_zero)

lemma step_zero: "calibration_step coeffs0 adc_zero cal_ppm t h s = d64 0.1"
  by (simp add: calibration_step_def getCorrectedPPM_fst ppm_zero fgt_def)

lemma Rs_flat: "sample_Rs adc_flat p n = Fin 28"
proof -
  have nz: "adc_flat n p \<noteq> 0" by (simp add: adc_flat_def)
  show ?thesis
    unfolding sample_Rs_finite[of adc_flat n p, OF nz] adc_flat_def volts_63 finite_Rs_flat
    by (rule refl)
qed

lemma Rs_level: "even n \<Longrightarrow> sample_Rs adc_level p n = Fin 0"
proof -
  assume e: "even n"
  then have a: "adc_level n p = 945" and b: "adc_level (Suc n) 33 = 63"
    by (simp_all add: adc_level_def)
  have nz: "adc_level n p \<noteq> 0" unfolding a by simp
  show ?thesis unfolding sample_Rs_finite[of adc_level n p, OF nz] a b volts_945 volts_63 finite_Rs_level
    by (rule refl)
qed

lemma Rs_low: "even n \<Longrightarrow> sample_Rs adc_low p n = Fin (12713985 / 32768)"
proof -
  assume e: "even n"
  then have a: "adc_low n p = 1" and b: "adc_low (Suc n) 33 = 13"
    by (simp_all add: adc_low_def)
  have nz: "adc_low n p \<noteq> 0" unfolding a by simp
  show ?thesis unfolding sample_Rs_finite[of adc_low n p, OF nz] a b volts_1 volts_13 finite_Rs_low
    by (rule refl)
qed

lemma probe_start:
  "probe c adc cal_ppm t h step (calibration_start c adc t h s) k =
     crossed step (sample_ppm c adc t h (pin s) ((radd step ^^ Suc k) (rzero s))
                     (reads s + 2 + 2 * k)) cal_ppm"
  by (simp add: probe_def fresh_def calibration_start_fields del: funpow.simps)

lemma success_iff_probe:
  "calibration_it c adc cal_ppm t h s < 1000 \<longleftrightarrow>
     (\<exists>k<1000. probe c adc cal_ppm t h (calibration_step c adc cal_ppm t h s)
                   (calibration_start c adc t h s) k)"
proof
  let ?it = "calibration_it c adc cal_ppm t h s"
  let ?P = "probe c adc cal_ppm t h (calibration_step c adc cal_ppm t h s)
                   (calibration_start c adc t h s)"
  have b: "0 \<le> ?it" using calibration_it_bounds[of c adc cal_ppm t h s] by simp
  {
    assume l: "?it < 1000"
    then have "?P (nat (?it - 0))"
      using loop_crossed[of 0 c adc cal_ppm t h "calibration_step c adc cal_ppm t h s"
          "calibration_start c adc t h s" ?it]
      by (simp add: calibration_it_def)
    moreover have "nat ?it < 1000" using l b by linarith
    ultimately show "\<exists>k<1000. ?P k" by auto
  }
  {
    assume "\<exists>k<1000. ?P k"
    then obtain k where k: "k < 1000" "?P k" by blast
    have "\<not> int k < ?it"
    proof
      assume "int k < ?it"
      then have "\<not> ?P (nat (int k - 0))"
        using loop_no_earlier[of 0 c adc cal_ppm t h "calibration_step c adc cal_ppm t h s"
          "calibration_start c adc t h s" ?it "int k"]
        by (simp add: calibration_it_def)
      then show False using k(2) by simp
    qed
    then show "?it < 1000" using k(1) by linarith
  }
qed

lemma first_pass_crossed:
  assumes "crossed (calibration_step c adc cal_ppm t h s)
             (sample_ppm c adc t h (pin s)
                (radd (calibration_step c adc cal_ppm t h s) (rzero s)) (reads s + 2)) cal_ppm"
  shows "calibration_it c adc cal_ppm t h s = 0"
proof -
  have "probe c adc cal_ppm t h (calibration_step c adc cal_ppm t h s)
          (calibration_start c adc t h s) 0"
    unfolding probe_start using assms by simp
  then show ?thesis unfolding calibration_it_def by (simp add: loop_step(1))
qed

lemma passes_le: "calibration_passes c adc cal_ppm t h s \<le> 10000"
  using calibration_it_bounds[of c adc cal_ppm t h s]
  by (simp add: calibration_passes_eq; linarith?)

lemma calibration_moves:
  assumes "\<bar>rzero s\<bar> \<le> 2000000"
  shows "3 / 100 * real (calibration_passes c adc cal_ppm t h s)
           \<le> \<bar>rzero (snd (calibrateRZero c adc cal_ppm t h s)) - rzero s\<bar>"
  unfolding calibrateRZero_fields
  by (rule radd_iter_moves[OF step_values passes_le assms])

lemma fpow_pos: "0 < x \<Longrightarrow> y \<noteq> 0 \<Longrightarrow> fpow (Fin x) (Fin y) = Fin (x powr y)"
  by simp

lemma power_law_inverse:
  assumes "0 < x" "b \<noteq> 0"
  shows "(1 / x powr (1 / b)) powr (- b) = (x::real)"
proof -
  have k: "0 < x powr (1 / b)" using assms(1) by simp
  have "(1 / x powr (1 / b)) powr (- b) = (x powr (1 / b)) powr b"
    using k by (simp add: powr_minus powr_divide field_simps)
  also have "\<dots> = x powr 1" using assms(2) by (simp add: powr_powr)
  also have "\<dots> = x" using assms(1) by simp
  finally show ?thesis .
qed

section \<open>The claims\<close>

subsection \<open>The conversions\<close>

text \<open>
  C7. For all real \<open>t\<close> and \<open>h\<close>, \<open>getCorrectionFactor\<close> returns
  \<open>CORA t\<^sup>2 - CORB t + CORC - (h - 33) CORD\<close>. It is a function of its arguments
  and of the constants alone: it takes no state and returns none, and it has a value
  for every input.
\<close>

theorem getCorrectionFactor_formula:
  "getCorrectionFactor c t h = CORA c * t\<^sup>2 - CORB c * t + CORC c - (h - 33) * CORD c"
  by (simp add: getCorrectionFactor_def power2_eq_square)

text \<open>
  C6. \<open>getCorrectedResistance\<close> returns what \<open>getResistance\<close> returns on the same
  readings, divided by the correction factor, and leaves the state that
  \<open>getResistance\<close> leaves; for a finite resistance and a factor other than zero the
  result is the quotient of the two numbers.
\<close>

theorem getCorrectedResistance_quotient:
  "getCorrectedResistance c adc t h s =
     (fdiv (fst (getResistance adc s)) (Fin (getCorrectionFactor c t h)), snd (getResistance adc s))
   \<and> (\<forall>r. fst (getResistance adc s) = Fin r \<and> getCorrectionFactor c t h \<noteq> 0 \<longrightarrow>
          fst (getCorrectedResistance c adc t h s) = Fin (r / getCorrectionFactor c t h))"
  by (simp add: getCorrectedResistance_def split_beta)

theorem getCorrectedResistance_quotient_witness:
  "fst (getResistance adc_flat state0) = Fin 28 \<and> getCorrectionFactor coeffs0 20 33 \<noteq> 0
   \<and> fst (getCorrectedResistance coeffs0 adc_flat 20 33 state0) = Fin (28 / 0.99178)"
  using getCorrectedResistance_quotient[of coeffs0 adc_flat 20 33 state0]
  by (simp add: getResistance_fst Rs_flat factor0)

text \<open>
  C8. \<open>getResistance\<close> takes two readings, the first on the sensor pin and the second
  on pin 33. It turns each into a voltage by the \<open>double\<close> product with 2.450 and
  the \<open>double\<close> quotient by 4095, stored into a \<open>float\<close>, and logs the two
  voltages with the result. The result is \<open>3 ref_val 10.0 / val - 2\<close>, evaluated
  from the left in \<open>double\<close> with the 2 subtracted after the division, and stored
  into a \<open>float\<close>; it is finite when the sensor reading is not 0. The readings 1 and
  13 give 388.00003, where the same expression on the readings themselves gives 388.
\<close>

theorem getResistance_formula:
  "(let val = f32 (d64 (d64 (real (unat (adc (reads s) (pin s))) * d64 2.450) / 4095));
        ref_val = f32 (d64 (d64 (real (unat (adc (Suc (reads s)) 33)) * d64 2.450) / 4095))
    in fst (getResistance adc s) =
         f32v (d64v (fsub (d64v (fdiv (Fin (d64 (d64 (3 * ref_val) * 10.0))) (Fin val))) (Fin 2)))
       \<and> snd (getResistance adc s) =
           s\<lparr>reads := reads s + 2,
              logged := logged s @ [Resistance_info val ref_val (fst (getResistance adc s))]\<rparr>
       \<and> (adc (reads s) (pin s) \<noteq> 0 \<longrightarrow>
            fst (getResistance adc s) =
              Fin (f32 (d64 (d64 (d64 (d64 (3 * ref_val) * 10.0) / val) - 2)))))"
proof -
  have v: "\<And>w. f32 (d64 (d64 (real (unat w) * d64 2.450) / 4095)) = volts w"
    by (simp add: volts_def)
  have "adc (reads s) (pin s) \<noteq> 0 \<longrightarrow>
      sample_Rs adc (pin s) (reads s) =
        Fin (finite_Rs (volts (adc (reads s) (pin s))) (volts (adc (Suc (reads s)) 33)))"
    by (simp add: sample_Rs_finite)
  then show ?thesis
    unfolding Let_def v getResistance_fst getResistance_snd
    by (simp add: sample_Rs_def finite_Rs_def)
qed

theorem getResistance_formula_witness:
  "adc_low (reads state0) (pin state0) \<noteq> 0
   \<and> volts (adc_low 0 34) = 5139277 / 8589934592
   \<and> volts (adc_low 1 33) = 16702651 / 2147483648
   \<and> getResistance adc_low state0 =
       (Fin (12713985 / 32768),
        state0\<lparr>reads := 2,
               logged := [Resistance_info (5139277 / 8589934592) (16702651 / 2147483648)
                            (Fin (12713985 / 32768))]\<rparr>)
   \<and> (12713985 / 32768 :: real) \<noteq> 3 * 13 * 10 / 1 - 2"
proof -
  have a: "adc_low 0 34 = 1" "adc_low (Suc 0) 33 = 13" "adc_low 1 33 = 13"
    by (simp_all add: adc_low_def)
  have f: "fst (getResistance adc_low state0) = Fin (12713985 / 32768)"
    by (simp add: getResistance_fst Rs_low state0_def)
  have r: "reads state0 = 0" "pin state0 = 34" "logged state0 = []" by (simp_all add: state0_def)
  have v: "\<And>w. f32 (d64 (d64 (real (unat w) * d64 2.450) / 4095)) = volts w"
    by (simp add: volts_def)
  have "snd (getResistance adc_low state0) =
      state0\<lparr>reads := 2,
             logged := [Resistance_info (5139277 / 8589934592) (16702651 / 2147483648)
                          (Fin (12713985 / 32768))]\<rparr>"
    using getResistance_formula[of adc_low state0]
    unfolding Let_def v f r a volts_1 volts_13 by simp
  then have "getResistance adc_low state0 =
       (Fin (12713985 / 32768),
        state0\<lparr>reads := 2,
               logged := [Resistance_info (5139277 / 8589934592) (16702651 / 2147483648)
                            (Fin (12713985 / 32768))]\<rparr>)"
    using f by (simp add: prod_eq_iff)
  then show ?thesis unfolding r a volts_1 volts_13 by simp
qed

text \<open>
  C9, as stated: when the sensor reading is 0, \<open>getResistance\<close> returns an infinity.
  It does not when the reference reading is 0 as well: the quotient is then 0 / 0, and
  the result is a NaN.
\<close>

theorem getResistance_zero_sample_counterexample:
  "adc_zero (reads state0) (pin state0) = 0
   \<and> fst (getResistance adc_zero state0) = NaN
   \<and> fst (getResistance adc_zero state0) \<noteq> PInf
   \<and> fst (getResistance adc_zero state0) \<noteq> NInf"
  by (simp add: getResistance_fst Rs_zero) (simp add: adc_zero_def)

text \<open>
  C9, amended: when the sensor reading is 0, \<open>getResistance\<close> divides by zero without
  a check and still returns, having taken its two readings and logged its line: the
  result is the positive infinity when the reference reading is not 0, and a NaN when it
  is 0 too.
\<close>

theorem getResistance_zero_sample:
  "adc (reads s) (pin s) = 0 \<Longrightarrow>
   getResistance adc s =
     (if adc (Suc (reads s)) 33 = 0 then NaN else PInf,
      s\<lparr>reads := reads s + 2,
         logged := logged s @
           [Resistance_info 0 (volts (adc (Suc (reads s)) 33))
              (if adc (Suc (reads s)) 33 = 0 then NaN else PInf)]\<rparr>)"
proof -
  assume z: "adc (reads s) (pin s) = 0"
  have "sample_Rs adc (pin s) (reads s) = (if adc (Suc (reads s)) 33 = 0 then NaN else PInf)"
    using z by (rule sample_Rs_zero)
  then show ?thesis
    by (simp add: prod_eq_iff getResistance_fst getResistance_snd z volts_0)
qed

theorem getResistance_zero_sample_witness:
  "adc_open (reads state0) (pin state0) = 0
   \<and> getResistance adc_open state0 =
       (PInf, state0\<lparr>reads := 2,
                     logged := [Resistance_info 0 (5139277 / 8589934592) PInf]\<rparr>)"
proof -
  have z: "adc_open (reads state0) (pin state0) = 0" by (simp add: adc_open_def state0_def)
  have o: "adc_open (Suc (reads state0)) 33 = 1" by (simp add: adc_open_def state0_def)
  show ?thesis
    using getResistance_zero_sample[of adc_open state0, OF z] z unfolding o volts_1
    by (simp add: state0_def)
qed

text \<open>
  C5, as stated: for any resistance sample, \<open>getPPM\<close> computed from that sample with
  \<open>_rzero\<close> set to what \<open>getRZero\<close> returns gives \<open>ATMOCO2\<close>. It does not for the
  sample 0 (the readings 945 and 63 give it): \<open>getRZero\<close> returns 0, and with
  \<open>_rzero\<close> 0 \<open>getPPM\<close> divides 0 by 0 and returns a NaN.
\<close>

theorem getRZero_getPPM_inverse_counterexample:
  "fst (getResistance adc_level state0) = Fin 0
   \<and> fst (getRZero coeffs0 adc_level state0) = Fin 0
   \<and> fst (getResistance adc_level (snd (getRZero coeffs0 adc_level state0))) = Fin 0
   \<and> fst (getPPM coeffs0 adc_level (snd (getRZero coeffs0 adc_level state0)\<lparr>rzero := 0\<rparr>)) = NaN
   \<and> fst (getPPM coeffs0 adc_level (snd (getRZero coeffs0 adc_level state0)\<lparr>rzero := 0\<rparr>))
       \<noteq> Fin (ATMOCO2 coeffs0)"
proof -
  have p: "fpow (fdiv (Fin (ATMOCO2 coeffs0)) (Fin (PARA coeffs0))) (fdiv (Fin 1) (Fin (PARB coeffs0)))
      = Fin ((397.13 / 116.6020682) powr (1 / 2.769034857))"
    by (simp add: coeffs0_def)
  have s: "snd (getRZero coeffs0 adc_level state0) = snd (getResistance adc_level state0)"
    by (simp add: getRZero_def split_beta)
  have r0: "sample_Rs adc_level 34 0 = Fin 0" "sample_Rs adc_level 34 2 = Fin 0"
    by (simp_all add: Rs_level)
  have a: "fst (getResistance adc_level state0) = Fin 0"
    by (simp add: getResistance_fst state0_def r0)
  have b: "fst (getRZero coeffs0 adc_level state0) = Fin 0"
    by (simp add: getRZero_def split_beta a p del: fdiv.simps fpow.simps)
  have c: "fst (getResistance adc_level (snd (getRZero coeffs0 adc_level state0))) = Fin 0"
    unfolding s by (simp add: getResistance_fst getResistance_snd state0_def Rs_level)
  have c': "fst (getResistance adc_level (snd (getRZero coeffs0 adc_level state0)\<lparr>rzero := 0\<rparr>))
      = Fin 0"
    unfolding s by (simp add: getResistance_fst getResistance_snd state0_def Rs_level)
  have d: "fst (getPPM coeffs0 adc_level (snd (getRZero coeffs0 adc_level state0)\<lparr>rzero := 0\<rparr>))
      = NaN"
    unfolding getPPM_def split_beta Let_def fst_conv c'
    by (simp add: getResistance_snd s) (simp add: coeffs0_def)
  show ?thesis using a b c d by simp
qed

text \<open>
  C5, amended: \<open>getRZero\<close> changes nothing of the object: it leaves the state that
  \<open>getResistance\<close> leaves, with two more readings taken and \<open>_pin\<close> and \<open>_rzero\<close>
  as they were. With \<open>PARA\<close> and \<open>ATMOCO2\<close> positive and \<open>PARB\<close> not zero, for
  every resistance sample \<open>Rs\<close> that is finite and not zero, \<open>getRZero\<close> returns
  \<open>Rs (ATMOCO2 / PARA) powr (1 / PARB)\<close>, and \<open>getPPM\<close> on the same sample with
  \<open>_rzero\<close> set to that value returns \<open>ATMOCO2\<close>.
\<close>

theorem getRZero_getPPM_inverse:
  "snd (getRZero c adc s) = snd (getResistance adc s)
   \<and> pin (snd (getRZero c adc s)) = pin s
   \<and> rzero (snd (getRZero c adc s)) = rzero s
   \<and> reads (snd (getRZero c adc s)) = reads s + 2
   \<and> delays (snd (getRZero c adc s)) = delays s
   \<and> (0 < PARA c \<and> 0 < ATMOCO2 c \<and> PARB c \<noteq> 0
        \<and> fst (getResistance adc s) = Fin Rs \<and> Rs \<noteq> 0
        \<and> fst (getResistance adc s2) = Fin Rs \<longrightarrow>
        fst (getRZero c adc s) = Fin (Rs * (ATMOCO2 c / PARA c) powr (1 / PARB c))
        \<and> fst (getPPM c adc (s2\<lparr>rzero := Rs * (ATMOCO2 c / PARA c) powr (1 / PARB c)\<rparr>))
            = Fin (ATMOCO2 c))"
proof (intro conjI impI)
  show "snd (getRZero c adc s) = snd (getResistance adc s)"
    by (simp add: getRZero_def split_beta)
  then show "pin (snd (getRZero c adc s)) = pin s"
    and "rzero (snd (getRZero c adc s)) = rzero s"
    and "reads (snd (getRZero c adc s)) = reads s + 2"
    and "delays (snd (getRZero c adc s)) = delays s"
    by (simp_all add: getResistance_snd)
next
  assume asm: "0 < PARA c \<and> 0 < ATMOCO2 c \<and> PARB c \<noteq> 0
        \<and> fst (getResistance adc s) = Fin Rs \<and> Rs \<noteq> 0
        \<and> fst (getResistance adc s2) = Fin Rs"
  let ?x = "ATMOCO2 c / PARA c"
  let ?k = "?x powr (1 / PARB c)"
  have x: "0 < ?x" using asm by simp
  have k: "0 < ?k" using asm by simp
  have r1: "fst (getResistance adc s) = Fin Rs" using asm by simp
  have r2: "fst (getResistance adc (s2\<lparr>rzero := Rs * ?k\<rparr>)) = Fin Rs"
    using asm by (simp add: getResistance_fst)
  have z2: "rzero (snd (getResistance adc (s2\<lparr>rzero := Rs * ?k\<rparr>))) = Rs * ?k"
    by (simp add: getResistance_snd)
  have c1: "fdiv (Fin (ATMOCO2 c)) (Fin (PARA c)) = Fin ?x" using asm by simp
  have c2: "fdiv (Fin 1) (Fin (PARB c)) = Fin (1 / PARB c)" using asm by simp
  have e: "1 / PARB c \<noteq> 0" "- PARB c \<noteq> 0" using asm by simp_all
  have c3: "fpow (Fin ?x) (Fin (1 / PARB c)) = Fin ?k"
    using x e(1) by (rule fpow_pos)
  show a: "fst (getRZero c adc s) = Fin (Rs * ?k)"
    unfolding getRZero_def split_beta Let_def fst_conv r1 c1 c2 c3 by simp
  have nz: "Rs * ?k \<noteq> 0" using asm k by simp
  have d1: "fdiv (Fin Rs) (Fin (Rs * ?k)) = Fin (1 / ?k)" using nz asm by simp
  have k': "0 < 1 / ?k" using k by simp
  have d2: "fpow (Fin (1 / ?k)) (Fin (- PARB c)) = Fin ((1 / ?k) powr (- PARB c))"
    using k' e(2) by (rule fpow_pos)
  have b: "PARB c \<noteq> 0" using asm by simp
  have d3: "(1 / ?k) powr (- PARB c) = ?x" using x b by (rule power_law_inverse)
  have "fst (getPPM c adc (s2\<lparr>rzero := Rs * ?k\<rparr>)) = fmul (Fin (PARA c)) (Fin ?x)"
    unfolding getPPM_def split_beta Let_def fst_conv r2 z2 d1 d2 d3 by (rule refl)
  then show "fst (getPPM c adc (s2\<lparr>rzero := Rs * ?k\<rparr>)) = Fin (ATMOCO2 c)"
    using asm by simp
qed

theorem getRZero_getPPM_inverse_witness:
  "0 < PARA coeffs0 \<and> 0 < ATMOCO2 coeffs0 \<and> PARB coeffs0 \<noteq> 0
   \<and> fst (getResistance adc_flat state0) = Fin 28
   \<and> fst (getRZero coeffs0 adc_flat state0)
       = Fin (28 * (ATMOCO2 coeffs0 / PARA coeffs0) powr (1 / PARB coeffs0))
   \<and> fst (getPPM coeffs0 adc_flat
            (state0\<lparr>rzero := 28 * (ATMOCO2 coeffs0 / PARA coeffs0) powr (1 / PARB coeffs0)\<rparr>))
       = Fin (ATMOCO2 coeffs0)
   \<and> rzero (snd (getRZero coeffs0 adc_flat state0)) = rzero state0"
proof -
  have a: "fst (getResistance adc_flat state0) = Fin 28"
    by (simp add: getResistance_fst Rs_flat)
  have p: "0 < PARA coeffs0" "0 < ATMOCO2 coeffs0" "PARB coeffs0 \<noteq> 0" "(28::real) \<noteq> 0"
    by (simp_all add: coeffs0_def)
  from getRZero_getPPM_inverse[of coeffs0 adc_flat state0 28 state0] a p
  show ?thesis by (simp add: getResistance_snd)
qed

subsection \<open>The calibration\<close>

text \<open>
  C1. \<open>calibrateRZero\<close> returns true exactly when the loop is left with its counter
  below 1000, although the counter may go up to 10000; that is, exactly when the test of
  one of the first 1000 passes succeeds. A run whose first successful test is that of
  the pass number 1000 returns false.
\<close>

theorem calibrateRZero_success_below_1000:
  "(fst (calibrateRZero c adc cal_ppm t h s) \<longleftrightarrow> calibration_it c adc cal_ppm t h s < 1000)
   \<and> calibration_it c adc cal_ppm t h s \<le> 10000
   \<and> (fst (calibrateRZero c adc cal_ppm t h s) \<longleftrightarrow>
        (\<exists>k<1000. probe c adc cal_ppm t h (calibration_step c adc cal_ppm t h s)
                      (calibration_start c adc t h s) k))"
  using calibration_it_bounds[of c adc cal_ppm t h s] success_iff_probe[of c adc cal_ppm t h s]
  by (simp add: calibrateRZero_fst)

theorem calibrateRZero_success_below_1000_witness:
  "fst (calibrateRZero coeffs0 (adc_at 999) 0 20 33 state0)
   \<and> calibration_it coeffs0 (adc_at 999) 0 20 33 state0 = 999
   \<and> \<not> fst (calibrateRZero coeffs0 (adc_at 1000) 0 20 33 state0)
   \<and> calibration_it coeffs0 (adc_at 1000) 0 20 33 state0 = 1000
   \<and> \<not> fst (calibrateRZero coeffs0 adc_zero 400 20 33 state0)
   \<and> calibration_it coeffs0 adc_zero 400 20 33 state0 = 10000"
  using calibrateRZero_success_below_1000[of coeffs0 "adc_at 999" 0 20 33 state0]
    calibrateRZero_success_below_1000[of coeffs0 "adc_at 1000" 0 20 33 state0]
    calibrateRZero_success_below_1000[of coeffs0 adc_zero 400 20 33 state0]
    it_at[of 999] it_at[of 1000] it_zero[of 400 20 33 state0]
  by simp

text \<open>
  C2, as stated: a run of \<open>N\<close> passes through the loop calls \<open>vTaskDelay\<close>
  \<open>N div 30\<close> times. A run that is never stopped by its test makes 10000 passes and
  334 calls, not 333: the call is made in the passes with the counter 0, 30, \<dots>, 9990.
\<close>

theorem calibrateRZero_yields_counterexample:
  "calibration_passes coeffs0 adc_zero 400 20 33 state0 = 10000
   \<and> delays state0 = 0
   \<and> delays (snd (calibrateRZero coeffs0 adc_zero 400 20 33 state0)) = 334
   \<and> delays (snd (calibrateRZero coeffs0 adc_zero 400 20 33 state0)) - delays state0
       \<noteq> calibration_passes coeffs0 adc_zero 400 20 33 state0 div 30"
  by (simp add: calibrateRZero_fields calibration_passes_eq it_zero yields_before_def)
     (simp add: state0_def)

text \<open>
  C2, amended: \<open>vTaskDelay\<close> is called at the end of every pass that is not left by
  \<open>break\<close> and whose counter is a multiple of 30, the first pass (counter 0) included.
  A run of \<open>N\<close> passes, each with one fresh measurement of two readings, therefore makes
  \<open>(N + 29) div 30\<close> calls when the loop runs to its bound (then \<open>N\<close> is 10000), and
  \<open>(N + 28) div 30\<close> calls when its last pass is left by \<open>break\<close>.
\<close>

theorem calibrateRZero_yields:
  "delays (snd (calibrateRZero c adc cal_ppm t h s)) =
     delays s + (if calibration_it c adc cal_ppm t h s < 10000
                 then (calibration_passes c adc cal_ppm t h s + 28) div 30
                 else (calibration_passes c adc cal_ppm t h s + 29) div 30)
   \<and> reads (snd (calibrateRZero c adc cal_ppm t h s)) =
       reads s + 2 + 2 * calibration_passes c adc cal_ppm t h s
   \<and> calibration_passes c adc cal_ppm t h s =
       (if calibration_it c adc cal_ppm t h s < 10000
        then nat (calibration_it c adc cal_ppm t h s) + 1 else 10000)"
proof -
  let ?it = "calibration_it c adc cal_ppm t h s"
  have b: "0 \<le> ?it" "?it \<le> 10000" using calibration_it_bounds[of c adc cal_ppm t h s] by simp_all
  have "nat (yields_before ?it) = (nat ?it + 29) div 30"
    using b(1) by (simp add: yields_before_def nat_div_distrib nat_add_distrib)
  then have y: "nat (yields_before ?it) = (29 + nat ?it) div 30" by (simp add: add.commute)
  show ?thesis
  proof (cases "?it < 10000")
    case True
    then show ?thesis by (simp add: calibrateRZero_fields calibration_passes_eq y)
  next
    case False
    then have "?it = 10000" using b by linarith
    then show ?thesis by (simp add: calibrateRZero_fields calibration_passes_eq yields_before_def)
  qed
qed

theorem calibrateRZero_yields_witness:
  "calibration_it coeffs0 (adc_at 31) 0 20 33 state0 = 31
   \<and> calibration_passes coeffs0 (adc_at 31) 0 20 33 state0 = 32
   \<and> reads (snd (calibrateRZero coeffs0 (adc_at 31) 0 20 33 state0)) = 66
   \<and> delays (snd (calibrateRZero coeffs0 (adc_at 31) 0 20 33 state0)) = 2"
  using calibrateRZero_yields[of coeffs0 "adc_at 31" 0 20 33 state0] it_at[of 31]
  by (simp add: state0_def)

text \<open>
  C3. The step is chosen once, from the first measurement: the negated \<open>double\<close>
  nearest to 0.1 when the measurement is above the target, that \<open>double\<close> otherwise.
  Every pass adds this same step to \<open>_rzero\<close>, as a \<open>float\<close>, and takes a fresh
  measurement. The loop is left at the first pass whose fresh measurement has crossed
  the target in that direction (at most the target for the negative step, at least the
  target for the positive one), or with the counter at 10000 when there is no such pass.
\<close>

theorem calibrateRZero_direction_and_stop:
  "calibration_step c adc cal_ppm t h s =
     (if fgt (fst (getCorrectedPPM c adc t h s)) (Fin cal_ppm) then - d64 0.1 else d64 0.1)
   \<and> d64 0.1 = 3602879701896397 / 36028797018963968
   \<and> 0 \<le> calibration_it c adc cal_ppm t h s
   \<and> calibration_it c adc cal_ppm t h s \<le> 10000
   \<and> (\<forall>k. int k < calibration_it c adc cal_ppm t h s \<longrightarrow>
          \<not> crossed (calibration_step c adc cal_ppm t h s)
               (sample_ppm c adc t h (pin s)
                  ((radd (calibration_step c adc cal_ppm t h s) ^^ Suc k) (rzero s))
                  (reads s + 2 + 2 * k))
               cal_ppm)
   \<and> (calibration_it c adc cal_ppm t h s < 10000 \<longrightarrow>
          crossed (calibration_step c adc cal_ppm t h s)
            (sample_ppm c adc t h (pin s)
               ((radd (calibration_step c adc cal_ppm t h s)
                   ^^ Suc (nat (calibration_it c adc cal_ppm t h s))) (rzero s))
               (reads s + 2 + 2 * nat (calibration_it c adc cal_ppm t h s)))
            cal_ppm)
   \<and> rzero (snd (calibrateRZero c adc cal_ppm t h s)) =
       (radd (calibration_step c adc cal_ppm t h s) ^^ calibration_passes c adc cal_ppm t h s)
         (rzero s)"
proof -
  let ?step = "calibration_step c adc cal_ppm t h s"
  let ?s1 = "calibration_start c adc t h s"
  let ?it = "calibration_it c adc cal_ppm t h s"
  have a: "\<forall>k. int k < ?it \<longrightarrow> \<not> probe c adc cal_ppm t h ?step ?s1 k"
  proof (intro allI impI)
    fix k assume "int k < ?it"
    then have "\<not> probe c adc cal_ppm t h ?step ?s1 (nat (int k - 0))"
      using loop_no_earlier[of 0 c adc cal_ppm t h ?step ?s1 ?it "int k"]
      by (simp add: calibration_it_def)
    then show "\<not> probe c adc cal_ppm t h ?step ?s1 k" by simp
  qed
  have b: "?it < 10000 \<longrightarrow> probe c adc cal_ppm t h ?step ?s1 (nat ?it)"
    using loop_crossed[of 0 c adc cal_ppm t h ?step ?s1 ?it]
    by (simp add: calibration_it_def)
  have st: "?step = (if fgt (fst (getCorrectedPPM c adc t h s)) (Fin cal_ppm)
                     then - d64 0.1 else d64 0.1)"
    by (simp add: calibration_step_def)
  show ?thesis
    using a b calibration_it_bounds[of c adc cal_ppm t h s] st d64_tenth
      calibrateRZero_fields(2)[of c adc cal_ppm t h s]
    unfolding probe_start by blast
qed

theorem calibrateRZero_direction_and_stop_witness:
  "calibration_step coeffs0 (adc_at 2) 0 20 33 state0 = d64 0.1
   \<and> calibration_it coeffs0 (adc_at 2) 0 20 33 state0 = 2
   \<and> radd (d64 0.1) (613 / 8) = 10056499 / 131072
   \<and> radd (d64 0.1) (10056499 / 131072) = 5034803 / 65536
   \<and> radd (d64 0.1) (5034803 / 65536) = 10082713 / 131072
   \<and> \<not> crossed (d64 0.1) (sample_ppm coeffs0 (adc_at 2) 20 33 34 (10056499 / 131072) 2) 0
   \<and> \<not> crossed (d64 0.1) (sample_ppm coeffs0 (adc_at 2) 20 33 34 (5034803 / 65536) 4) 0
   \<and> crossed (d64 0.1) (sample_ppm coeffs0 (adc_at 2) 20 33 34 (10082713 / 131072) 6) 0
   \<and> rzero (snd (calibrateRZero coeffs0 (adc_at 2) 0 20 33 state0)) = 10082713 / 131072"
proof -
  note T = calibrateRZero_direction_and_stop[of coeffs0 "adc_at 2" 0 20 33 state0]
  have it: "calibration_it coeffs0 (adc_at 2) 0 20 33 state0 = 2" using it_at[of 2] by simp
  have ps: "calibration_passes coeffs0 (adc_at 2) 0 20 33 state0 = 3"
    by (simp add: calibration_passes_eq it)
  have r: "rzero state0 = 613 / 8" by (simp add: state0_def)
  have i3: "(radd (d64 0.1) ^^ 3) (613 / 8) = 10082713 / 131072"
    by (simp add: numeral_3_eq_3 radd_step_1 radd_step_2 radd_step_3)
  have fin: "rzero (snd (calibrateRZero coeffs0 (adc_at 2) 0 20 33 state0)) = 10082713 / 131072"
    using T unfolding step_at ps r i3 by blast
  have cr: "\<not> crossed (d64 0.1) (sample_ppm coeffs0 (adc_at 2) 20 33 34 (10056499 / 131072) 2) 0"
    "\<not> crossed (d64 0.1) (sample_ppm coeffs0 (adc_at 2) 20 33 34 (5034803 / 65536) 4) 0"
    "crossed (d64 0.1) (sample_ppm coeffs0 (adc_at 2) 20 33 34 (10082713 / 131072) 6) 0"
    using tenth_pos by (simp_all add: crossed_def ppm_at fge_def)
  show ?thesis using step_at[of 2] it fin cr radd_step_1 radd_step_2 radd_step_3 by simp
qed

text \<open>
  C4, as stated: every call of \<open>calibrateRZero\<close> changes \<open>_rzero\<close>, and a call that
  fails leaves it at the furthest value the search reached. With \<open>_rzero\<close> at
  \<open>2\<^sup>2\<^sup>1\<close> the \<open>float\<close> addition of the step gives \<open>2\<^sup>2\<^sup>1\<close> again: a
  call that fails after 10000 passes leaves \<open>_rzero\<close> as it was.
\<close>

theorem calibrateRZero_no_rollback_counterexample:
  "rzero state_big = 2097152
   \<and> \<not> fst (calibrateRZero coeffs0 adc_zero 400 20 33 state_big)
   \<and> calibration_passes coeffs0 adc_zero 400 20 33 state_big = 10000
   \<and> rzero (snd (calibrateRZero coeffs0 adc_zero 400 20 33 state_big)) = rzero state_big"
proof -
  have r: "rzero state_big = 2097152" by (simp add: state_big_def)
  have "(radd (d64 0.1) ^^ 10000) 2097152 = 2097152"
    by (rule funpow_fixed) (rule radd_big)
  then show ?thesis
    by (simp add: calibrateRZero_fst calibrateRZero_fields calibration_passes_eq it_zero
          step_zero r)
qed

text \<open>
  C4, amended: \<open>calibrateRZero\<close> has no way back: after every call \<open>_rzero\<close> is
  what the \<open>float\<close> addition \<open>_rzero += step\<close>, made once in each of the passes,
  has left, and there is at least one pass; after a call that returns false there were
  more than 1000. When \<open>_rzero\<close> is at most 2000000 in absolute value before the
  call, every addition moves it by at least 0.03, so the call has changed it.
\<close>

theorem calibrateRZero_no_rollback:
  "rzero (snd (calibrateRZero c adc cal_ppm t h s)) =
     (radd (calibration_step c adc cal_ppm t h s) ^^ calibration_passes c adc cal_ppm t h s)
       (rzero s)
   \<and> 1 \<le> calibration_passes c adc cal_ppm t h s
   \<and> (\<not> fst (calibrateRZero c adc cal_ppm t h s) \<longrightarrow>
         1000 < calibration_passes c adc cal_ppm t h s)
   \<and> (\<bar>rzero s\<bar> \<le> 2000000 \<longrightarrow>
         rzero (snd (calibrateRZero c adc cal_ppm t h s)) \<noteq> rzero s
         \<and> 3 / 100 * real (calibration_passes c adc cal_ppm t h s)
             \<le> \<bar>rzero (snd (calibrateRZero c adc cal_ppm t h s)) - rzero s\<bar>)"
proof -
  let ?n = "calibration_passes c adc cal_ppm t h s"
  have n1: "1 \<le> ?n" by (rule passes_pos)
  have f: "\<not> fst (calibrateRZero c adc cal_ppm t h s) \<longrightarrow> 1000 < ?n"
    using calibration_it_bounds[of c adc cal_ppm t h s]
    by (auto simp add: calibrateRZero_fst calibration_passes_eq)
  have m: "\<bar>rzero s\<bar> \<le> 2000000 \<longrightarrow>
      3 / 100 * real ?n \<le> \<bar>rzero (snd (calibrateRZero c adc cal_ppm t h s)) - rzero s\<bar>"
    using calibration_moves[of s c adc cal_ppm t h] by blast
  have "0 < 3 / 100 * real ?n" using n1 by simp
  then have ne: "\<bar>rzero s\<bar> \<le> 2000000 \<longrightarrow>
      rzero (snd (calibrateRZero c adc cal_ppm t h s)) \<noteq> rzero s"
    using m by auto
  show ?thesis using calibrateRZero_fields(2)[of c adc cal_ppm t h s] n1 f m ne by blast
qed

theorem calibrateRZero_no_rollback_witness:
  "\<not> fst (calibrateRZero coeffs0 adc_zero 400 20 33 state0)
   \<and> calibration_passes coeffs0 adc_zero 400 20 33 state0 = 10000
   \<and> \<bar>rzero state0\<bar> \<le> 2000000
   \<and> rzero (snd (calibrateRZero coeffs0 adc_zero 400 20 33 state0)) \<noteq> rzero state0
   \<and> 300 \<le> \<bar>rzero (snd (calibrateRZero coeffs0 adc_zero 400 20 33 state0)) - rzero state0\<bar>"
proof -
  have p: "calibration_passes coeffs0 adc_zero 400 20 33 state0 = 10000"
    by (simp add: calibration_passes_eq it_zero)
  have r: "\<bar>rzero state0\<bar> \<le> 2000000" by (simp add: state0_def)
  have f: "\<not> fst (calibrateRZero coeffs0 adc_zero 400 20 33 state0)"
    by (simp add: calibrateRZero_fst it_zero)
  note T = calibrateRZero_no_rollback[of coeffs0 adc_zero 400 20 33 state0, unfolded p]
  have "rzero (snd (calibrateRZero coeffs0 adc_zero 400 20 33 state0)) \<noteq> rzero state0
      \<and> 3 / 100 * real (10000::nat)
          \<le> \<bar>rzero (snd (calibrateRZero coeffs0 adc_zero 400 20 33 state0)) - rzero state0\<bar>"
    using T r by blast
  then show ?thesis using p r f by simp
qed

text \<open>
  C10, as stated: no call leaves \<open>_rzero\<close> at its old value, even when the first
  measurement equals the target. With \<open>_rzero\<close> at \<open>2\<^sup>2\<^sup>1\<close> and a first
  measurement equal to the target, the one pass adds the step, the \<open>float\<close> sum is
  \<open>2\<^sup>2\<^sup>1\<close> again, and the call returns true with \<open>_rzero\<close> as it was.
\<close>

theorem calibrateRZero_first_pass_counterexample:
  "rzero state_big = 2097152
   \<and> fst (getCorrectedPPM coeffs0 adc_open 20 33 state_big) = Fin 0
   \<and> fst (calibrateRZero coeffs0 adc_open 0 20 33 state_big)
   \<and> calibration_passes coeffs0 adc_open 0 20 33 state_big = 1
   \<and> rzero (snd (calibrateRZero coeffs0 adc_open 0 20 33 state_big)) = rzero state_big"
proof -
  have r: "rzero state_big = 2097152" "reads state_big = 0" "pin state_big = 34"
    by (simp_all add: state_big_def)
  have m: "fst (getCorrectedPPM coeffs0 adc_open 20 33 state_big) = Fin 0"
    by (simp add: getCorrectedPPM_fst r ppm_open)
  have st: "calibration_step coeffs0 adc_open 0 20 33 state_big = d64 0.1"
    by (simp add: calibration_step_def m fgt_def)
  have "crossed (calibration_step coeffs0 adc_open 0 20 33 state_big)
             (sample_ppm coeffs0 adc_open 20 33 (pin state_big)
                (radd (calibration_step coeffs0 adc_open 0 20 33 state_big) (rzero state_big))
                (reads state_big + 2)) 0"
    unfolding st using tenth_pos by (simp add: crossed_def r ppm_open fge_def)
  then have it: "calibration_it coeffs0 adc_open 0 20 33 state_big = 0"
    by (rule first_pass_crossed)
  have ps: "calibration_passes coeffs0 adc_open 0 20 33 state_big = 1"
    by (simp add: calibration_passes_eq it)
  show ?thesis
    by (simp add: calibrateRZero_fst calibrateRZero_fields it ps st r m radd_big)
qed

text \<open>
  C10, amended: the first pass makes the \<open>float\<close> addition \<open>_rzero += step\<close>
  before anything is compared: the test of the first pass is made on a fresh
  measurement, taken with the new \<open>_rzero\<close>, and when it succeeds the call returns
  true with \<open>_rzero\<close> one addition away. When the first measurement equals the target
  the step is the \<open>double\<close> nearest to 0.1. After the call \<open>_rzero\<close> is the result
  of at least one such addition; it differs from its old value when that was at most
  2000000 in absolute value.
\<close>

theorem calibrateRZero_first_pass:
  "(fst (getCorrectedPPM c adc t h s) = Fin cal_ppm \<longrightarrow>
      calibration_step c adc cal_ppm t h s = d64 0.1)
   \<and> (crossed (calibration_step c adc cal_ppm t h s)
         (sample_ppm c adc t h (pin s)
            (radd (calibration_step c adc cal_ppm t h s) (rzero s)) (reads s + 2)) cal_ppm \<longrightarrow>
       fst (calibrateRZero c adc cal_ppm t h s)
       \<and> pin (snd (calibrateRZero c adc cal_ppm t h s)) = pin s
       \<and> rzero (snd (calibrateRZero c adc cal_ppm t h s)) =
           radd (calibration_step c adc cal_ppm t h s) (rzero s)
       \<and> reads (snd (calibrateRZero c adc cal_ppm t h s)) = reads s + 4
       \<and> delays (snd (calibrateRZero c adc cal_ppm t h s)) = delays s)
   \<and> (\<exists>n\<ge>1. rzero (snd (calibrateRZero c adc cal_ppm t h s)) =
                (radd (calibration_step c adc cal_ppm t h s) ^^ n) (rzero s))
   \<and> (\<bar>rzero s\<bar> \<le> 2000000 \<longrightarrow>
         rzero (snd (calibrateRZero c adc cal_ppm t h s)) \<noteq> rzero s)"
proof -
  let ?n = "calibration_passes c adc cal_ppm t h s"
  let ?step = "calibration_step c adc cal_ppm t h s"
  have a: "fst (getCorrectedPPM c adc t h s) = Fin cal_ppm \<longrightarrow> ?step = d64 0.1"
    by (simp add: calibration_step_def fgt_def)
  have b: "crossed ?step (sample_ppm c adc t h (pin s) (radd ?step (rzero s)) (reads s + 2)) cal_ppm
      \<longrightarrow> fst (calibrateRZero c adc cal_ppm t h s)
       \<and> pin (snd (calibrateRZero c adc cal_ppm t h s)) = pin s
       \<and> rzero (snd (calibrateRZero c adc cal_ppm t h s)) = radd ?step (rzero s)
       \<and> reads (snd (calibrateRZero c adc cal_ppm t h s)) = reads s + 4
       \<and> delays (snd (calibrateRZero c adc cal_ppm t h s)) = delays s"
  proof
    assume "crossed ?step (sample_ppm c adc t h (pin s) (radd ?step (rzero s)) (reads s + 2)) cal_ppm"
    then have it: "calibration_it c adc cal_ppm t h s = 0" by (rule first_pass_crossed)
    have ps: "?n = 1" by (simp add: calibration_passes_eq it)
    show "fst (calibrateRZero c adc cal_ppm t h s)
       \<and> pin (snd (calibrateRZero c adc cal_ppm t h s)) = pin s
       \<and> rzero (snd (calibrateRZero c adc cal_ppm t h s)) = radd ?step (rzero s)
       \<and> reads (snd (calibrateRZero c adc cal_ppm t h s)) = reads s + 4
       \<and> delays (snd (calibrateRZero c adc cal_ppm t h s)) = delays s"
      by (simp add: calibrateRZero_fst calibrateRZero_fields it ps yields_before_0)
  qed
  have n1: "1 \<le> ?n" by (rule passes_pos)
  have ex: "\<exists>n\<ge>1. rzero (snd (calibrateRZero c adc cal_ppm t h s)) = (radd ?step ^^ n) (rzero s)"
    using calibrateRZero_fields(2)[of c adc cal_ppm t h s] n1 by blast
  have "0 < 3 / 100 * real ?n" using n1 by simp
  then have ne: "\<bar>rzero s\<bar> \<le> 2000000 \<longrightarrow>
      rzero (snd (calibrateRZero c adc cal_ppm t h s)) \<noteq> rzero s"
    using calibration_moves[of s c adc cal_ppm t h] by auto
  show ?thesis using a b ex ne by blast
qed

theorem calibrateRZero_first_pass_witness:
  "fst (getCorrectedPPM coeffs0 adc_open 20 33 state0) = Fin 0
   \<and> calibration_step coeffs0 adc_open 0 20 33 state0 = d64 0.1
   \<and> \<bar>rzero state0\<bar> \<le> 2000000
   \<and> fst (calibrateRZero coeffs0 adc_open 0 20 33 state0)
   \<and> rzero state0 = 613 / 8
   \<and> rzero (snd (calibrateRZero coeffs0 adc_open 0 20 33 state0)) = 10056499 / 131072
   \<and> reads (snd (calibrateRZero coeffs0 adc_open 0 20 33 state0)) = 4
   \<and> delays (snd (calibrateRZero coeffs0 adc_open 0 20 33 state0)) = 0"
proof -
  note T = calibrateRZero_first_pass[of coeffs0 adc_open 20 33 state0 0]
  have r: "rzero state0 = 613 / 8" "reads state0 = 0" "pin state0 = 34" "delays state0 = 0"
    by (simp_all add: state0_def)
  have m: "fst (getCorrectedPPM coeffs0 adc_open 20 33 state0) = Fin 0"
    by (simp add: getCorrectedPPM_fst r ppm_open)
  have st: "calibration_step coeffs0 adc_open 0 20 33 state0 = d64 0.1"
    using T m by blast
  have "crossed (calibration_step coeffs0 adc_open 0 20 33 state0)
          (sample_ppm coeffs0 adc_open 20 33 (pin state0)
             (radd (calibration_step coeffs0 adc_open 0 20 33 state0) (rzero state0))
             (reads state0 + 2)) 0"
    unfolding st using tenth_pos by (simp add: crossed_def r ppm_open fge_def)
  then have "fst (calibrateRZero coeffs0 adc_open 0 20 33 state0)
       \<and> rzero (snd (calibrateRZero coeffs0 adc_open 0 20 33 state0)) =
           radd (calibration_step coeffs0 adc_open 0 20 33 state0) (rzero state0)
       \<and> reads (snd (calibrateRZero coeffs0 adc_open 0 20 33 state0)) = reads state0 + 4
       \<and> delays (snd (calibrateRZero coeffs0 adc_open 0 20 33 state0)) = delays state0"
    using T by blast
  then show ?thesis unfolding st r radd_step_1 using m st by simp
qed

end
